theory Spec2Isabelle
  imports Main
begin

section \<open>JavaScript values\<close>

text \<open>
  The repository is TypeScript; at run time its filter sets, orders and continuation keys
  are plain JavaScript values. Numbers are modelled as integers (chain ids, limits,
  timestamps and amounts are integral in this code), objects as association lists in
  insertion order, so that \<open>Object.keys\<close> is the list of first components.
\<close>

datatype jsval =
    Undefined
  | Null
  | Bool bool
  | Num int
  | Str string
  | Arr "jsval list"
  | Obj "(string \<times> jsval) list"

text \<open>Truthiness, as used by \<open>if (x)\<close>, \<open>x ? a : b\<close> and \<open>x && y\<close>.\<close>

fun truthy :: "jsval \<Rightarrow> bool" where
  "truthy Undefined = False"
| "truthy Null = False"
| "truthy (Bool b) = b"
| "truthy (Num n) = (n \<noteq> 0)"
| "truthy (Str s) = (s \<noteq> [])"
| "truthy (Arr xs) = True"
| "truthy (Obj kvs) = True"

text \<open>The test of \<open>x ?? d\<close>: only \<open>undefined\<close> and \<open>null\<close> are nullish.\<close>

fun nullish :: "jsval \<Rightarrow> bool" where
  "nullish Undefined = True"
| "nullish Null = True"
| "nullish v = False"

definition digit_char :: "nat \<Rightarrow> char" where
  "digit_char d = ''0123456789'' ! d"

function show_nat :: "nat \<Rightarrow> string" where
  "show_nat n = (if n < 10 then [digit_char n] else show_nat (n div 10) @ [digit_char (n mod 10)])"
  by pat_completeness auto
termination
  by (relation "measure (\<lambda>n. n)") auto

declare show_nat.simps [simp del]

definition show_int :: "int \<Rightarrow> string" where
  "show_int i = (if i < 0 then CHR ''-'' # show_nat (nat (- i)) else show_nat (nat i))"

fun join :: "string \<Rightarrow> string list \<Rightarrow> string" where
  "join sep [] = []"
| "join sep [x] = x"
| "join sep (x # y # ys) = x @ sep @ join sep (y # ys)"

text \<open>
  String conversion, as performed by a template literal \<open>`${v}`\<close>: an array prints its
  elements separated by commas, with \<open>null\<close> and \<open>undefined\<close> elements empty; an
  object prints as \<open>[object Object]\<close>.
\<close>

fun toStr :: "jsval \<Rightarrow> string" where
  "toStr Undefined = ''undefined''"
| "toStr Null = ''null''"
| "toStr (Bool b) = (if b then ''true'' else ''false'')"
| "toStr (Num n) = show_int n"
| "toStr (Str s) = s"
| "toStr (Arr xs) = join '','' (map (\<lambda>x. if nullish x then [] else toStr x) xs)"
| "toStr (Obj kvs) = ''[object Object]''"

text \<open>Property access \<open>o[k]\<close> on an object: \<open>undefined\<close> when the key is absent.\<close>

definition lookup :: "(string \<times> jsval) list \<Rightarrow> string \<Rightarrow> jsval" where
  "lookup kvs k = (case map_of kvs k of None \<Rightarrow> Undefined | Some v \<Rightarrow> v)"

text \<open>
  \<open>Object.keys(v)\<close>: the own keys of an object, the indices of an array or of a string,
  nothing for a number or a boolean; on \<open>null\<close> and \<open>undefined\<close> it throws a TypeError
  (the result \<open>None\<close>).
\<close>

fun Object_keys :: "jsval \<Rightarrow> string list option" where
  "Object_keys Undefined = None"
| "Object_keys Null = None"
| "Object_keys (Bool b) = Some []"
| "Object_keys (Num n) = Some []"
| "Object_keys (Str s) = Some (map show_nat [0..<length s])"
| "Object_keys (Arr xs) = Some (map show_nat [0..<length xs])"
| "Object_keys (Obj kvs) = Some (map fst kvs)"

text \<open>\<open>s.split(c)\<close> for a one-character separator.\<close>

fun split :: "char \<Rightarrow> string \<Rightarrow> string list" where
  "split c [] = [[]]"
| "split c (x # xs) =
     (if x = c then [] # split c xs
      else (case split c xs of [] \<Rightarrow> [[x]] | y # ys \<Rightarrow> (x # y) # ys))"

section \<open>Configuration constants\<close>

text \<open>
  Modelled from the spec: the enumeration \<open>GET_QUERY_PARAMS\<close> of
  \<open>handlers/get-orders/schema\<close> is not among the sources. Its members used by the
  repository are given the dimension names of the spec's data model (section 3); the
  repository itself reads the same names as literals (\<open>queryFilters['filler']\<close>).
\<close>

definition GQP_OFFERER :: string where "GQP_OFFERER = ''offerer''"
definition GQP_FILLER :: string where "GQP_FILLER = ''filler''"
definition GQP_ORDER_STATUS :: string where "GQP_ORDER_STATUS = ''orderStatus''"
definition GQP_CHAIN_ID :: string where "GQP_CHAIN_ID = ''chainId''"
definition GQP_ORDER_HASH :: string where "GQP_ORDER_HASH = ''orderHash''"
definition GQP_ORDER_HASHES :: string where "GQP_ORDER_HASHES = ''orderHashes''"
definition GQP_SORT_KEY :: string where "GQP_SORT_KEY = ''sortKey''"
definition GQP_SORT :: string where "GQP_SORT = ''sort''"
definition GQP_DESC :: string where "GQP_DESC = ''desc''"

text \<open>
  Modelled from the spec: the enumeration \<open>TABLE_KEY\<close> of \<open>config/dynamodb\<close> is not
  among the sources. Its members name the attributes of the orders table: the fields of
  an order and the seven derived composite attributes of the spec's data model
  (section 3). The repository writes the index \<open>offerer_orderStatus-createdAt-all\<close> as a
  literal, which fixes \<open>OFFERER\<close>, \<open>ORDER_STATUS\<close> and \<open>CREATED_AT\<close>.
\<close>

definition TK_ORDER_HASH :: string where "TK_ORDER_HASH = ''orderHash''"
definition TK_OFFERER :: string where "TK_OFFERER = ''offerer''"
definition TK_FILLER :: string where "TK_FILLER = ''filler''"
definition TK_ORDER_STATUS :: string where "TK_ORDER_STATUS = ''orderStatus''"
definition TK_CHAIN_ID :: string where "TK_CHAIN_ID = ''chainId''"
definition TK_CREATED_AT :: string where "TK_CREATED_AT = ''createdAt''"

text \<open>\<open>Object.values(TABLE_KEY)\<close>.\<close>

definition TABLE_KEY_values :: "string list" where
  "TABLE_KEY_values =
     [TK_ORDER_HASH, TK_OFFERER, TK_FILLER, TK_ORDER_STATUS, TK_CHAIN_ID, TK_CREATED_AT,
      ''reactor'', ''nonce'', ''deadline'', ''decayStartTime'', ''decayEndTime'',
      ''input'', ''outputs'', ''encodedOrder'', ''signature'', ''txHash'',
      ''settledAmounts'',
      ''offerer_orderStatus'', ''filler_orderStatus'', ''filler_offerer'',
      ''chainId_filler'', ''chainId_orderStatus'', ''chainId_orderStatus_filler'',
      ''filler_offerer_orderStatus'']"

definition MAX_ORDERS :: int where
  "MAX_ORDERS = 50"

section \<open>Errors and collaborators\<close>

text \<open>
  A thrown \<open>Error\<close> carries its message; a TypeError is what the runtime throws, here
  for \<open>Object.keys(null)\<close> and for \<open>.map\<close> on a value that is not an array.
\<close>

datatype error = Error string | TypeError

definition InvalidQuery :: error where
  "InvalidQuery = Error
     ''Invalid query, must query with one of the following params: [orderHash, orderHashes, chainId, orderStatus, swapper, filler]''"

definition InvalidCursor :: error where
  "InvalidCursor = Error ''Invalid cursor.''"

text \<open>
  Modelled from the spec: the type \<open>ComparisonFilter\<close> of \<open>util/comparison\<close> is not
  among the sources. A comparison is one of the six supported operators (section 4.2)
  with its operands; the operator's name is the key under which the operand is passed to
  the store.
\<close>

datatype OPERATOR = EQ | LT | LTE | GT | GTE | BETWEEN

fun operatorName :: "OPERATOR \<Rightarrow> string" where
  "operatorName EQ = ''eq''"
| "operatorName LT = ''lt''"
| "operatorName LTE = ''lte''"
| "operatorName GT = ''gt''"
| "operatorName GTE = ''gte''"
| "operatorName BETWEEN = ''between''"

record ComparisonFilter =
  operator :: OPERATOR
  values_of :: "int list"

text \<open>
  The functions the repository imports and that are outside the sources are parameters of
  the model: \<open>parseComparisonFilter\<close> of \<open>util/comparison\<close> (it may throw, or return no
  comparison), \<open>encode\<close> and \<open>decode\<close> of \<open>util/encryption\<close>, and the runtime's
  \<open>JSON.parse\<close> and \<open>JSON.stringify\<close>. For \<open>decode\<close> and \<open>JSON.parse\<close> the result
  \<open>None\<close> stands for a thrown exception.
\<close>

record collaborators =
  parseComparisonFilter :: "jsval \<Rightarrow> error + ComparisonFilter option"
  encode :: "string \<Rightarrow> string"
  decode :: "string \<Rightarrow> string option"
  JSON_parse :: "string \<Rightarrow> jsval option"
  JSON_stringify :: "jsval \<Rightarrow> string"

section \<open>The orders repository: queries\<close>

subsection \<open>Cursor validation\<close>

text \<open>
  The keys a continuation key may have for an index: the primary key, then the
  \<open>TABLE_KEY\<close> values among the dash-separated parts of the index name.
\<close>

definition validKeys :: "string option \<Rightarrow> string list" where
  "validKeys index =
     TK_ORDER_HASH #
     (case index of
        None \<Rightarrow> []
      | Some i \<Rightarrow> filter (\<lambda>key. key \<noteq> []) (filter (\<lambda>key. key \<in> set TABLE_KEY_values) (split CHR ''-'' i)))"

text \<open>
  The body of the \<open>try\<close> block, \<open>JSON.parse(decode(cursor))\<close>: \<open>None\<close> when it throws.
\<close>

definition parseCursor :: "collaborators \<Rightarrow> string \<Rightarrow> jsval option" where
  "parseCursor c cursor =
     (case decode c cursor of None \<Rightarrow> None | Some text \<Rightarrow> JSON_parse c text)"

definition getStartKey :: "collaborators \<Rightarrow> string \<Rightarrow> string option \<Rightarrow> error + jsval" where
  "getStartKey c cursor index =
     (case parseCursor c cursor of
        None \<Rightarrow> Inl InvalidCursor
      | Some lastEvaluatedKey \<Rightarrow>
          (case Object_keys lastEvaluatedKey of
             None \<Rightarrow> Inl TypeError
           | Some keys \<Rightarrow>
               (let keysMatch = list_all (\<lambda>key. key \<in> set (validKeys index)) keys
                in if length keys \<noteq> length (validKeys index) \<or> \<not> keysMatch
                   then Inl InvalidCursor
                   else Inr lastEvaluatedKey)))"

subsection \<open>The range query\<close>

text \<open>
  The options object passed to the store's \<open>query\<close>. An option the object literal leaves
  out is \<open>None\<close>: the comparison (keyed by its operator) and \<open>reverse\<close> are spread in
  only when a sort key and a comparison are both present, \<open>startKey\<close> only with a cursor.
\<close>

record query_options =
  q_index :: string
  q_limit :: int
  q_comparison :: "(string \<times> jsval) option"
  q_reverse :: "jsval option"
  q_startKey :: "jsval option"

text \<open>What the repository asks of the store.\<close>

datatype store_call =
    Query jsval query_options
  | Get jsval
  | BatchGet "jsval list"

definition formattedIndex :: "string \<Rightarrow> jsval \<Rightarrow> string" where
  "formattedIndex index sortKey =
     index @ ''-'' @ (if nullish sortKey then TK_CREATED_AT else toStr sortKey) @ ''-all''"

definition comparisonOperand :: "ComparisonFilter \<Rightarrow> jsval" where
  "comparisonOperand comparison =
     (if operatorName (operator comparison) = ''between'' then Arr (map Num (values_of comparison))
      else (case values_of comparison of [] \<Rightarrow> Undefined | v # _ \<Rightarrow> Num v))"

definition queryOrderEntity ::
  "collaborators \<Rightarrow> jsval \<Rightarrow> string \<Rightarrow> int option \<Rightarrow> string option \<Rightarrow> jsval \<Rightarrow> jsval \<Rightarrow> jsval
     \<Rightarrow> error + store_call" where
  "queryOrderEntity c partitionKey index limit cursor sortKey sort_arg desc_arg =
     (let desc = (if desc_arg = Undefined then Bool True else desc_arg) in
      case (if truthy sortKey then parseComparisonFilter c sort_arg else Inr None) of
        Inl e \<Rightarrow> Inl e
      | Inr comparison \<Rightarrow>
          (let base = \<lparr> q_index = formattedIndex index sortKey,
                         q_limit = (case limit of
                                      None \<Rightarrow> MAX_ORDERS
                                    | Some l \<Rightarrow> if l \<noteq> 0 then min l MAX_ORDERS else MAX_ORDERS),
                         q_comparison = (case comparison of
                                           None \<Rightarrow> None
                                         | Some cmp \<Rightarrow>
                                             if truthy sortKey
                                             then Some (operatorName (operator cmp), comparisonOperand cmp)
                                             else None),
                         q_reverse = (case comparison of
                                        None \<Rightarrow> None
                                      | Some cmp \<Rightarrow> if truthy sortKey then Some desc else None),
                         q_startKey = None \<rparr>
           in case cursor of
                None \<Rightarrow> Inr (Query partitionKey base)
              | Some cur \<Rightarrow>
                  if cur = [] then Inr (Query partitionKey base)
                  else (case getStartKey c cur (Some (formattedIndex index sortKey)) of
                          Inl e \<Rightarrow> Inl e
                        | Inr k \<Rightarrow> Inr (Query partitionKey (base\<lparr> q_startKey := Some k \<rparr>)))))"

text \<open>
  The reply of the store to a range query, and what \<open>queryOrderEntity\<close> returns for it:
  the items, and the encoded continuation key when the store gave one.
\<close>

record query_reply =
  Items :: "jsval list"
  LastEvaluatedKey :: "jsval option"

record QueryResult =
  orders :: "jsval list"
  cursor_of :: "string option"

definition queryResult :: "collaborators \<Rightarrow> query_reply \<Rightarrow> QueryResult" where
  "queryResult c reply =
     \<lparr> orders = Items reply,
       cursor_of = (case LastEvaluatedKey reply of
                      None \<Rightarrow> None
                    | Some k \<Rightarrow> if truthy k then Some (encode c (JSON_stringify c k)) else None) \<rparr>"

subsection \<open>Routing\<close>

definition areParamsRequested :: "string list \<Rightarrow> string list \<Rightarrow> bool" where
  "areParamsRequested queryParams requestedParams =
     (length requestedParams = length queryParams \<and>
      list_all (\<lambda>f. f \<in> set requestedParams) queryParams)"

definition getRequestedParams :: "(string \<times> jsval) list \<Rightarrow> string list" where
  "getRequestedParams queryFilters =
     filter (\<lambda>requestedParam. requestedParam \<notin> set [GQP_SORT_KEY, GQP_SORT, GQP_DESC])
       (map fst queryFilters)"

definition getByOfferer ::
  "collaborators \<Rightarrow> jsval \<Rightarrow> int option \<Rightarrow> string option \<Rightarrow> jsval \<Rightarrow> jsval \<Rightarrow> jsval
     \<Rightarrow> error + store_call" where
  "getByOfferer c offerer limit cursor sortKey sort_arg desc =
     queryOrderEntity c offerer TK_OFFERER limit cursor sortKey sort_arg desc"

definition getByOrderStatus ::
  "collaborators \<Rightarrow> jsval \<Rightarrow> int option \<Rightarrow> string option \<Rightarrow> jsval \<Rightarrow> jsval \<Rightarrow> jsval
     \<Rightarrow> error + store_call" where
  "getByOrderStatus c orderStatus limit cursor sortKey sort_arg desc =
     queryOrderEntity c orderStatus TK_ORDER_STATUS limit cursor sortKey sort_arg desc"

definition getByFiller ::
  "collaborators \<Rightarrow> jsval \<Rightarrow> int option \<Rightarrow> string option \<Rightarrow> jsval \<Rightarrow> jsval \<Rightarrow> jsval
     \<Rightarrow> error + store_call" where
  "getByFiller c filler limit cursor sortKey sort_arg desc =
     queryOrderEntity c filler TK_FILLER limit cursor sortKey sort_arg desc"

definition getByChainId ::
  "collaborators \<Rightarrow> jsval \<Rightarrow> int option \<Rightarrow> string option \<Rightarrow> jsval \<Rightarrow> jsval \<Rightarrow> jsval
     \<Rightarrow> error + store_call" where
  "getByChainId c chainId limit cursor sortKey sort_arg desc =
     queryOrderEntity c chainId TK_CHAIN_ID limit cursor sortKey sort_arg desc"

text \<open>
  \<open>getOrders\<close> is a \<open>switch (true)\<close>: the first case whose expression is true is taken.
  The two primary-key cases test membership (\<open>includes\<close>), not the exact set.
\<close>

definition getOrders ::
  "collaborators \<Rightarrow> int option \<Rightarrow> (string \<times> jsval) list \<Rightarrow> string option \<Rightarrow> error + store_call" where
  "getOrders c limit queryFilters cursor =
     (let requestedParams = getRequestedParams queryFilters;
          q = lookup queryFilters
      in
      if areParamsRequested [GQP_FILLER, GQP_OFFERER, GQP_ORDER_STATUS] requestedParams then
        queryOrderEntity c
          (Str (toStr (q ''filler'') @ ''_'' @ toStr (q ''offerer'') @ ''_'' @ toStr (q ''orderStatus'')))
          (TK_FILLER @ ''_'' @ TK_OFFERER @ ''_'' @ TK_ORDER_STATUS)
          limit cursor (q ''sortKey'') (q ''sort'') (q ''desc'')
      else if areParamsRequested [GQP_CHAIN_ID, GQP_FILLER] requestedParams then
        queryOrderEntity c
          (Str (toStr (q ''chainId'') @ ''_'' @ toStr (q ''filler'')))
          (TK_CHAIN_ID @ ''_'' @ TK_FILLER)
          limit cursor (q ''sortKey'') (q ''sort'') (q ''desc'')
      else if areParamsRequested [GQP_CHAIN_ID, GQP_ORDER_STATUS] requestedParams then
        queryOrderEntity c
          (Str (toStr (q ''chainId'') @ ''_'' @ toStr (q ''orderStatus'')))
          (TK_CHAIN_ID @ ''_'' @ TK_ORDER_STATUS)
          limit cursor (q ''sortKey'') (q ''sort'') (q ''desc'')
      else if areParamsRequested [GQP_CHAIN_ID, GQP_ORDER_STATUS, GQP_FILLER] requestedParams then
        queryOrderEntity c
          (Str (toStr (q ''chainId'') @ ''_'' @ toStr (q ''orderStatus'') @ ''_'' @ toStr (q ''filler'')))
          (TK_CHAIN_ID @ ''_'' @ TK_ORDER_STATUS @ ''_'' @ TK_FILLER)
          limit cursor (q ''sortKey'') (q ''sort'') (q ''desc'')
      else if areParamsRequested [GQP_FILLER, GQP_ORDER_STATUS] requestedParams then
        queryOrderEntity c
          (Str (toStr (q ''filler'') @ ''_'' @ toStr (q ''orderStatus'')))
          (TK_FILLER @ ''_'' @ TK_ORDER_STATUS)
          limit cursor (q ''sortKey'') (q ''sort'') (q ''desc'')
      else if areParamsRequested [GQP_FILLER, GQP_OFFERER] requestedParams then
        queryOrderEntity c
          (Str (toStr (q ''filler'') @ ''_'' @ toStr (q ''offerer'')))
          (TK_FILLER @ ''_'' @ TK_OFFERER)
          limit cursor (q ''sortKey'') (q ''sort'') (q ''desc'')
      else if areParamsRequested [GQP_OFFERER, GQP_ORDER_STATUS] requestedParams then
        queryOrderEntity c
          (Str (toStr (q ''offerer'') @ ''_'' @ toStr (q ''orderStatus'')))
          (TK_OFFERER @ ''_'' @ TK_ORDER_STATUS)
          limit cursor (q ''sortKey'') (q ''sort'') (q ''desc'')
      else if GQP_ORDER_HASH \<in> set requestedParams then
        Inr (Get (q ''orderHash''))
      else if GQP_ORDER_HASHES \<in> set requestedParams then
        (case q ''orderHashes'' of
           Arr orderHashes \<Rightarrow> Inr (BatchGet orderHashes)
         | _ \<Rightarrow> Inl TypeError)
      else if areParamsRequested [GQP_OFFERER] requestedParams then
        getByOfferer c (q ''offerer'') limit cursor (q ''sortKey'') (q ''sort'') (q ''desc'')
      else if areParamsRequested [GQP_ORDER_STATUS] requestedParams then
        getByOrderStatus c (q ''orderStatus'') limit cursor (q ''sortKey'') (q ''sort'') (q ''desc'')
      else if areParamsRequested [GQP_FILLER] requestedParams then
        getByFiller c (q ''filler'') limit cursor (q ''sortKey'') (q ''sort'') (q ''desc'')
      else if areParamsRequested [GQP_CHAIN_ID] requestedParams then
        getByChainId c (q ''chainId'') limit cursor (q ''sortKey'') (q ''sort'') (q ''desc'')
      else Inl InvalidQuery)"

subsection \<open>The index catalog, as the spec words it\<close>

text \<open>
  The spec describes routing as a walk over a fixed list of templates, each an exact set
  of dimension names bound to an index and to a canonical field order for the partition
  key (section 4.1). This is that list, written from the spec's words, to be compared
  with \<open>getOrders\<close>: the dimensions of each template in canonical order, and its index.
\<close>

definition catalog :: "(string list \<times> string) list" where
  "catalog =
     [([''filler'', ''offerer'', ''orderStatus''], ''filler_offerer_orderStatus''),
      ([''chainId'', ''filler''], ''chainId_filler''),
      ([''chainId'', ''orderStatus''], ''chainId_orderStatus''),
      ([''chainId'', ''orderStatus'', ''filler''], ''chainId_orderStatus_filler''),
      ([''filler'', ''orderStatus''], ''filler_orderStatus''),
      ([''filler'', ''offerer''], ''filler_offerer''),
      ([''offerer'', ''orderStatus''], ''offerer_orderStatus''),
      ([''offerer''], ''offerer''),
      ([''orderStatus''], ''orderStatus''),
      ([''filler''], ''filler''),
      ([''chainId''], ''chainId'')]"

text \<open>
  The partition key of a template for a filter set: the values of its dimensions, in the
  template's order, joined by an underscore; a single dimension gives its value as it is
  (a chain id stays a number).
\<close>

definition partitionKeyOf :: "string list \<Rightarrow> (string \<times> jsval) list \<Rightarrow> jsval" where
  "partitionKeyOf dims queryFilters =
     (case dims of
        [d] \<Rightarrow> lookup queryFilters d
      | _ \<Rightarrow> Str (join ''_'' (map (\<lambda>d. toStr (lookup queryFilters d)) dims)))"

text \<open>
  The requested dimension set of a filter set, as the spec words it (section 4.1, step 1):
  the keys of the filter set minus the modifier keys \<open>sortKey\<close>, \<open>sort\<close> and \<open>desc\<close>.
\<close>

definition requestedDimensions :: "(string \<times> jsval) list \<Rightarrow> string set" where
  "requestedDimensions queryFilters =
     set (map fst queryFilters) - {''sortKey'', ''sort'', ''desc''}"

text \<open>The dimension sets the spec calls supported: the templates and the two lookups.\<close>

definition supportedDimensionSets :: "string set list" where
  "supportedDimensionSets = map (\<lambda>t. set (fst t)) catalog @ [{''orderHash''}, {''orderHashes''}]"

text \<open>
  The name of the sort attribute of the index a query resolves to: the caller's sort key
  when it gave one, else the creation time.
\<close>

definition sortKeyName :: "jsval \<Rightarrow> string" where
  "sortKeyName sortKey = (if nullish sortKey then ''createdAt'' else toStr sortKey)"

text \<open>
  The enumeration \<open>SORT_FIELDS\<close> of \<open>entities\<close> is not among the sources, so the sort
  attribute of an index is left open: it is any attribute of the table that is neither
  the primary key nor the partition attribute of an index of the catalog. The default,
  \<open>createdAt\<close>, is one.
\<close>

definition isSortField :: "string \<Rightarrow> bool" where
  "isSortField s =
     (s \<in> set TABLE_KEY_values \<and> s \<noteq> ''orderHash'' \<and> s \<notin> set (map snd catalog))"

text \<open>
  The fields of a continuation key of an index, as the spec words them (section 4.3): the
  primary-key field together with the fields the index implies, its partition attribute
  and its sort attribute.
\<close>

definition expectedFields :: "string \<Rightarrow> jsval \<Rightarrow> string set" where
  "expectedFields index sortKey = {''orderHash'', index, sortKeyName sortKey}"

section \<open>The orders repository: writes\<close>

text \<open>
  An item of a table is an object read by attribute name, a finite map. The orders table
  is keyed by the value of \<open>orderHash\<close>, the nonce table by the string
  \<open>offerer-chainId\<close>.
\<close>

type_synonym item = "string \<Rightarrow> jsval option"

record db =
  orders_table :: "jsval \<Rightarrow> item option"
  nonce_table :: "string \<Rightarrow> item option"

text \<open>Property access \<open>order.f\<close>.\<close>

definition field :: "item \<Rightarrow> string \<Rightarrow> jsval" where
  "field it k = (case it k of None \<Rightarrow> Undefined | Some v \<Rightarrow> v)"

text \<open>
  The object literal handed to \<open>putTransaction\<close>: the order's own properties, then the
  seven composites, then \<open>createdAt\<close>; a later key replaces an earlier one. The value
  \<open>now\<close> is what \<open>currentTimestampInSeconds()\<close> returns at the write.
\<close>

definition putItem :: "item \<Rightarrow> jsval \<Rightarrow> item" where
  "putItem order now =
     order
      (''offerer_orderStatus'' \<mapsto>
         Str (toStr (field order ''offerer'') @ ''_'' @ toStr (field order ''orderStatus'')),
       ''filler_orderStatus'' \<mapsto>
         Str (toStr (field order ''filler'') @ ''_'' @ toStr (field order ''orderStatus'')),
       ''filler_offerer'' \<mapsto>
         Str (toStr (field order ''filler'') @ ''_'' @ toStr (field order ''offerer'')),
       ''chainId_filler'' \<mapsto>
         Str (toStr (field order ''chainId'') @ ''_'' @ toStr (field order ''filler'')),
       ''chainId_orderStatus'' \<mapsto>
         Str (toStr (field order ''chainId'') @ ''_'' @ toStr (field order ''orderStatus'')),
       ''chainId_orderStatus_filler'' \<mapsto>
         Str (toStr (field order ''chainId'') @ ''_'' @ toStr (field order ''orderStatus'')
              @ ''_'' @ toStr (field order ''filler'')),
       ''filler_offerer_orderStatus'' \<mapsto>
         Str (toStr (field order ''filler'') @ ''_'' @ toStr (field order ''offerer'')
              @ ''_'' @ toStr (field order ''orderStatus'')),
       ''createdAt'' \<mapsto> now)"

text \<open>The nonce record written with it: an update, which keeps the record's other attributes.\<close>

definition nonceKey :: "item \<Rightarrow> string" where
  "nonceKey order = toStr (field order ''offerer'') @ ''-'' @ toStr (field order ''chainId'')"

definition putOrderAndUpdateNonceTransaction :: "jsval \<Rightarrow> db \<Rightarrow> item \<Rightarrow> db" where
  "putOrderAndUpdateNonceTransaction now d order =
     d\<lparr> orders_table := (orders_table d)(field order ''orderHash'' \<mapsto> putItem order now),
        nonce_table := (nonce_table d)
          (nonceKey order \<mapsto>
            (case nonce_table d (nonceKey order) of None \<Rightarrow> Map.empty | Some r \<Rightarrow> r)
              (''offerer'' \<mapsto> Str (nonceKey order), ''nonce'' \<mapsto> field order ''nonce'')) \<rparr>"

definition getByHash :: "db \<Rightarrow> string \<Rightarrow> item option" where
  "getByHash d hash = orders_table d (Str hash)"

text \<open>
  Modelled from the spec: \<open>checkDefined\<close> of \<open>preconditions/preconditions\<close> is not among
  the sources; an absent order makes the update fail (\<open>NotFound\<close>, section 6), here with
  the message the repository passes to it.
\<close>

definition checkDefined :: "'a option \<Rightarrow> string \<Rightarrow> error + 'a" where
  "checkDefined v message = (case v of None \<Rightarrow> Inl (Error message) | Some x \<Rightarrow> Inr x)"

text \<open>
  The attributes \<open>updateOrderStatus\<close> hands to the store's \<open>update\<close>, which sets them on
  the stored item and leaves its other attributes as they are. \<open>txHash\<close> and
  \<open>settledAmounts\<close> are spread in only when given (and the hash not empty).
\<close>

definition statusUpdate :: "item \<Rightarrow> string \<Rightarrow> string \<Rightarrow> string option \<Rightarrow> jsval list option \<Rightarrow> item" where
  "statusUpdate order orderHash status txHash settledAmounts =
     (let u0 = [''orderHash'' \<mapsto> Str orderHash,
                ''orderStatus'' \<mapsto> Str status,
                ''offerer_orderStatus'' \<mapsto> Str (toStr (field order ''offerer'') @ ''_'' @ status),
                ''filler_orderStatus'' \<mapsto> Str (toStr (field order ''filler'') @ ''_'' @ status),
                ''filler_offerer_orderStatus'' \<mapsto>
                   Str (toStr (field order ''filler'') @ ''_'' @ toStr (field order ''offerer'') @ ''_'' @ status),
                ''chainId_orderStatus'' \<mapsto> Str (toStr (field order ''chainId'') @ ''_'' @ status),
                ''chainId_orderStatus_filler'' \<mapsto>
                   Str (toStr (field order ''chainId'') @ ''_'' @ status @ ''_'' @ toStr (field order ''filler''))];
          u1 = (case txHash of
                  None \<Rightarrow> u0
                | Some h \<Rightarrow> if h = [] then u0 else u0(''txHash'' \<mapsto> Str h));
          u2 = (case settledAmounts of
                  None \<Rightarrow> u1
                | Some a \<Rightarrow> u1(''settledAmounts'' \<mapsto> Arr a))
      in u2)"

definition updateOrderStatus ::
  "db \<Rightarrow> string \<Rightarrow> string \<Rightarrow> string option \<Rightarrow> jsval list option \<Rightarrow> error + db" where
  "updateOrderStatus d orderHash status txHash settledAmounts =
     (case checkDefined (getByHash d orderHash) ''cannot find order by hash when updating order status'' of
        Inl e \<Rightarrow> Inl e
      | Inr order \<Rightarrow>
          Inr (d\<lparr> orders_table := (orders_table d)
                 (Str orderHash \<mapsto> order ++ statusUpdate order orderHash status txHash settledAmounts) \<rparr>))"

text \<open>\<open>deleteOrders\<close> removes the items of the given hashes, in one batch.\<close>

definition deleteOrders :: "db \<Rightarrow> string list \<Rightarrow> db" where
  "deleteOrders d orderHashes =
     d\<lparr> orders_table := (\<lambda>k. if k \<in> set (map Str orderHashes) then None else orders_table d k) \<rparr>"

text \<open>
  The consistency of the seven composites of a stored item with its primary fields: each
  is the string joining, with underscores, the fields its name lists.
\<close>

definition compositesConsistent :: "item \<Rightarrow> bool" where
  "compositesConsistent it =
     (it ''offerer_orderStatus'' =
        Some (Str (toStr (field it ''offerer'') @ ''_'' @ toStr (field it ''orderStatus''))) \<and>
      it ''filler_orderStatus'' =
        Some (Str (toStr (field it ''filler'') @ ''_'' @ toStr (field it ''orderStatus''))) \<and>
      it ''filler_offerer'' =
        Some (Str (toStr (field it ''filler'') @ ''_'' @ toStr (field it ''offerer''))) \<and>
      it ''chainId_filler'' =
        Some (Str (toStr (field it ''chainId'') @ ''_'' @ toStr (field it ''filler''))) \<and>
      it ''chainId_orderStatus'' =
        Some (Str (toStr (field it ''chainId'') @ ''_'' @ toStr (field it ''orderStatus''))) \<and>
      it ''chainId_orderStatus_filler'' =
        Some (Str (toStr (field it ''chainId'') @ ''_'' @ toStr (field it ''orderStatus'')
                   @ ''_'' @ toStr (field it ''filler''))) \<and>
      it ''filler_offerer_orderStatus'' =
        Some (Str (toStr (field it ''filler'') @ ''_'' @ toStr (field it ''offerer'')
                   @ ''_'' @ toStr (field it ''orderStatus''))))"

definition compositeNames :: "string list" where
  "compositeNames =
     [''offerer_orderStatus'', ''filler_orderStatus'', ''filler_offerer'', ''chainId_filler'',
      ''chainId_orderStatus'', ''chainId_orderStatus_filler'', ''filler_offerer_orderStatus'']"

section \<open>The order validator\<close>

record OrderValidationResponse =
  valid :: bool
  errorString :: "string option"

text \<open>
  An order as the validator reads it. Amounts and the nonce are \<open>BigNumber\<close>s, unbounded
  integers; \<open>order_hash\<close> is what the order's \<open>hash()\<close> returns.
\<close>

record DutchOutput =
  out_token :: string
  out_recipient :: string
  out_startAmount :: int
  out_endAmount :: int

record DutchLimitOrder =
  deadline :: int
  startTime :: int
  nonce :: int
  offerer :: string
  reactor :: string
  input_token :: string
  input_amount :: int
  outputs :: "DutchOutput list"
  order_hash :: string

text \<open>
  The schemas of \<open>field-validator\<close> are outside the sources and are parameters: each maps
  a string to the error it reports, printed as in the reason string, or to none.
\<close>

record FieldValidator =
  isValidNonce :: "string \<Rightarrow> string option"
  isValidEthAddress :: "string \<Rightarrow> string option"
  isValidOrderHash :: "string \<Rightarrow> string option"

definition ONE_YEAR_IN_SECONDS :: int where
  "ONE_YEAR_IN_SECONDS = 60 * 60 * 24 * 365"

definition ok :: OrderValidationResponse where
  "ok = \<lparr> valid = True, errorString = None \<rparr>"

definition failure :: "string \<Rightarrow> OrderValidationResponse" where
  "failure reason = \<lparr> valid = False, errorString = Some reason \<rparr>"

definition validateDeadline :: "(unit \<Rightarrow> int) \<Rightarrow> int \<Rightarrow> int \<Rightarrow> OrderValidationResponse" where
  "validateDeadline getCurrentTime minOffset dl =
     (if dl < getCurrentTime () + minOffset then failure ''Insufficient Deadline''
      else if dl > getCurrentTime () + ONE_YEAR_IN_SECONDS
      then failure ''Deadline field invalid: Order expiry cannot be larger than one year''
      else ok)"

definition validateStartTime :: "int \<Rightarrow> int \<Rightarrow> OrderValidationResponse" where
  "validateStartTime st dl =
     (if st > dl then failure ''Invalid startTime: startTime > deadline'' else ok)"

definition validateNonce :: "FieldValidator \<Rightarrow> int \<Rightarrow> OrderValidationResponse" where
  "validateNonce fv n =
     (case isValidNonce fv (show_int n) of
        Some err \<Rightarrow> failure (''Invalid nonce: '' @ err)
      | None \<Rightarrow> ok)"

definition validateOfferer :: "FieldValidator \<Rightarrow> string \<Rightarrow> OrderValidationResponse" where
  "validateOfferer fv a =
     (case isValidEthAddress fv a of
        Some err \<Rightarrow> failure (''Invalid offerer: '' @ err)
      | None \<Rightarrow> ok)"

definition validateReactor :: "FieldValidator \<Rightarrow> string \<Rightarrow> OrderValidationResponse" where
  "validateReactor fv a =
     (case isValidEthAddress fv a of
        Some err \<Rightarrow> failure (''Invalid reactor: '' @ err)
      | None \<Rightarrow> ok)"

definition validateInputToken :: "FieldValidator \<Rightarrow> string \<Rightarrow> OrderValidationResponse" where
  "validateInputToken fv a =
     (case isValidEthAddress fv a of
        Some err \<Rightarrow> failure (''Invalid input token: '' @ err)
      | None \<Rightarrow> ok)"

definition isValidUint256 :: "int \<Rightarrow> bool" where
  "isValidUint256 v = (v \<ge> 0 \<and> v < 2 ^ 256)"

definition validateInputAmount :: "int \<Rightarrow> OrderValidationResponse" where
  "validateInputAmount amount =
     (if \<not> isValidUint256 amount then failure (''Invalid input amount: '' @ show_int amount)
      else ok)"

text \<open>
  The body of the loop of \<open>validateOutputs\<close> for one output: the response it returns
  early with, or \<open>None\<close> when the loop goes on to the next output.
\<close>

definition validateOutput :: "FieldValidator \<Rightarrow> DutchOutput \<Rightarrow> OrderValidationResponse option" where
  "validateOutput fv output =
     (if isValidEthAddress fv (out_token output) \<noteq> None
      then Some (failure (''Invalid output token '' @ out_token output))
      else if isValidEthAddress fv (out_recipient output) \<noteq> None
      then Some (failure (''Invalid recipient '' @ out_recipient output))
      else if \<not> isValidUint256 (out_startAmount output)
      then Some (failure (''Invalid startAmount '' @ show_int (out_startAmount output)))
      else if \<not> isValidUint256 (out_endAmount output)
      then Some (failure (''Invalid endAmount '' @ show_int (out_endAmount output)))
      else if out_endAmount output > out_startAmount output
      then Some (failure ''Invalid endAmount > startAmount'')
      else None)"

fun validateOutputs :: "FieldValidator \<Rightarrow> DutchOutput list \<Rightarrow> OrderValidationResponse" where
  "validateOutputs fv [] = ok"
| "validateOutputs fv (output # rest) =
     (case validateOutput fv output of
        Some r \<Rightarrow> r
      | None \<Rightarrow> validateOutputs fv rest)"

definition validateHash :: "FieldValidator \<Rightarrow> string \<Rightarrow> OrderValidationResponse" where
  "validateHash fv h =
     (case isValidOrderHash fv h of
        Some err \<Rightarrow> failure (''Invalid orderHash: '' @ err)
      | None \<Rightarrow> ok)"

definition validate ::
  "FieldValidator \<Rightarrow> (unit \<Rightarrow> int) \<Rightarrow> int \<Rightarrow> DutchLimitOrder \<Rightarrow> OrderValidationResponse" where
  "validate fv getCurrentTime minOffset order =
     (let deadlineValidation = validateDeadline getCurrentTime minOffset (deadline order) in
      if \<not> valid deadlineValidation then deadlineValidation else
      let startTimeValidation = validateStartTime (startTime order) (deadline order) in
      if \<not> valid startTimeValidation then startTimeValidation else
      let nonceValidation = validateNonce fv (nonce order) in
      if \<not> valid nonceValidation then nonceValidation else
      let offererValidation = validateOfferer fv (offerer order) in
      if \<not> valid offererValidation then offererValidation else
      let reactorValidation = validateReactor fv (reactor order) in
      if \<not> valid reactorValidation then reactorValidation else
      let inputTokenValidation = validateInputToken fv (input_token order) in
      if \<not> valid inputTokenValidation then inputTokenValidation else
      let inputAmountValidation = validateInputAmount (input_amount order) in
      if \<not> valid inputAmountValidation then inputAmountValidation else
      let outputsValidation = validateOutputs fv (outputs order) in
      if \<not> valid outputsValidation then outputsValidation else
      let orderHashValidation = validateHash fv (order_hash order) in
      if \<not> valid orderHashValidation then orderHashValidation else
      ok)"

text \<open>
  The pipeline as the spec words it (section 4.4): the checks in a list, in order; the
  result is the first response that is not valid, and the valid response with no reason
  when there is none.
\<close>

definition checksInOrder ::
  "FieldValidator \<Rightarrow> (unit \<Rightarrow> int) \<Rightarrow> int \<Rightarrow> DutchLimitOrder \<Rightarrow> OrderValidationResponse list" where
  "checksInOrder fv getCurrentTime minOffset order =
     [validateDeadline getCurrentTime minOffset (deadline order),
      validateStartTime (startTime order) (deadline order),
      validateNonce fv (nonce order),
      validateOfferer fv (offerer order),
      validateReactor fv (reactor order),
      validateInputToken fv (input_token order),
      validateInputAmount (input_amount order),
      validateOutputs fv (outputs order),
      validateHash fv (order_hash order)]"

definition firstFailure :: "OrderValidationResponse list \<Rightarrow> OrderValidationResponse" where
  "firstFailure rs = (case find (\<lambda>r. \<not> valid r) rs of None \<Rightarrow> ok | Some r \<Rightarrow> r)"

text \<open>
  The five checks of one output as the spec lists them (token, recipient, start amount,
  end amount, end amount at most start amount), each with the response of its failure.
\<close>

definition outputChecks :: "FieldValidator \<Rightarrow> DutchOutput \<Rightarrow> (bool \<times> OrderValidationResponse) list" where
  "outputChecks fv output =
     [(isValidEthAddress fv (out_token output) = None,
         failure (''Invalid output token '' @ out_token output)),
      (isValidEthAddress fv (out_recipient output) = None,
         failure (''Invalid recipient '' @ out_recipient output)),
      (0 \<le> out_startAmount output \<and> out_startAmount output < 2 ^ 256,
         failure (''Invalid startAmount '' @ show_int (out_startAmount output))),
      (0 \<le> out_endAmount output \<and> out_endAmount output < 2 ^ 256,
         failure (''Invalid endAmount '' @ show_int (out_endAmount output))),
      (out_endAmount output \<le> out_startAmount output,
         failure ''Invalid endAmount > startAmount'')]"

definition firstFailedCheck :: "(bool \<times> OrderValidationResponse) list \<Rightarrow> OrderValidationResponse option" where
  "firstFailedCheck cs = map_option snd (find (\<lambda>c. \<not> fst c) cs)"

section \<open>Example inputs\<close>

text \<open>
  Concrete values on which the theorems below are instantiated. The example field
  validator accepts a nonce of digits only, an address or hash that starts with \<open>0x\<close>.
\<close>

definition exampleFieldValidator :: FieldValidator where
  "exampleFieldValidator =
     \<lparr> isValidNonce = (\<lambda>s. if list_all (\<lambda>ch. ch \<in> set ''0123456789'') s then None
                              else Some ''nonce must be digits''),
       isValidEthAddress = (\<lambda>s. if take 2 s = ''0x'' then None else Some ''invalid address''),
       isValidOrderHash = (\<lambda>s. if take 2 s = ''0x'' then None else Some ''invalid hash'') \<rparr>"

definition exampleOrder :: DutchLimitOrder where
  "exampleOrder =
     \<lparr> deadline = 1100, startTime = 1000, nonce = 7, offerer = ''0xofferer'',
       reactor = ''0xreactor'', input_token = ''0xinput'', input_amount = 1000000,
       outputs = [\<lparr> out_token = ''0xoutput'', out_recipient = ''0xrecipient'',
                    out_startAmount = 2000000, out_endAmount = 1000000 \<rparr>],
       order_hash = ''0xc57af022'' \<rparr>"

text \<open>
  Example collaborators: a comparison parser that knows one expression, a reversible
  encoding, and the runtime's JSON functions on the two texts the examples use.
\<close>

definition exampleKey :: jsval where
  "exampleKey = Obj [(''orderHash'', Str ''0xc57af022''), (''offerer'', Str ''0xofferer''),
                     (''createdAt'', Num 1700000000)]"

definition exampleKeyText :: string where
  \<open>exampleKeyText = ''{"orderHash":"0xc57af022","offerer":"0xofferer","createdAt":1700000000}''\<close>

definition exampleCollaborators :: collaborators where
  "exampleCollaborators =
     \<lparr> parseComparisonFilter =
         (\<lambda>s. if s = Str ''gt(5)'' then Inr (Some \<lparr> operator = GT, values_of = [5] \<rparr>)
              else if s = Undefined then Inr None
              else Inl (Error ''Unable to parse operator and value for query param'')),
       encode = rev,
       decode = (\<lambda>s. Some (rev s)),
       JSON_parse = (\<lambda>s. if s = exampleKeyText then Some exampleKey
                          else if s = ''null'' then Some Null else None),
       JSON_stringify = (\<lambda>v. if v = exampleKey then exampleKeyText else ''null'') \<rparr>"

definition exampleFilters :: "(string \<times> jsval) list" where
  "exampleFilters = [(''offerer'', Str ''0xofferer''), (''orderStatus'', Str ''open'')]"

text \<open>
  An order as the repository receives it, after the mock order of the source's tests (the
  long hexadecimal fields shortened), with a creation time the caller supplied; and the
  empty tables.
\<close>

definition exampleOrderEntity :: item where
  "exampleOrderEntity =
     [''encodedOrder'' \<mapsto> Str ''0x0000000000000020'',
      ''signature'' \<mapsto> Str ''0x5cb4a416206783ec'',
      ''nonce'' \<mapsto> Str ''0xnonce'',
      ''orderHash'' \<mapsto> Str ''0xc57af022'',
      ''offerer'' \<mapsto> Str ''0xofferer'',
      ''orderStatus'' \<mapsto> Str ''open'',
      ''chainId'' \<mapsto> Num 1,
      ''decayStartTime'' \<mapsto> Num 1,
      ''decayEndTime'' \<mapsto> Num 2,
      ''deadline'' \<mapsto> Num 3,
      ''createdAt'' \<mapsto> Num 1]"

definition emptyDb :: db where
  "emptyDb = \<lparr> orders_table = Map.empty, nonce_table = Map.empty \<rparr>"

section \<open>The validator runs its checks in order\<close>

lemmas validator_defs = checksInOrder_def validateDeadline_def validateStartTime_def
  validateNonce_def validateOfferer_def validateReactor_def validateInputToken_def
  validateInputAmount_def validateHash_def validateOutput_def isValidUint256_def
  ONE_YEAR_IN_SECONDS_def exampleFieldValidator_def exampleOrder_def ok_def failure_def

lemma valid_ok: "valid ok"
  by (simp add: ok_def)

lemma valid_failure: "\<not> valid (failure r)"
  by (simp add: failure_def)

lemma show_nat_digit: "n < 10 \<Longrightarrow> show_nat n = [digit_char n]"
  by (simp add: show_nat.simps)

lemma show_nat_more: "\<not> n < 10 \<Longrightarrow> show_nat n = show_nat (n div 10) @ [digit_char (n mod 10)]"
  by (subst show_nat.simps) simp

lemma validate_firstFailure:
  "validate fv t m order = firstFailure (checksInOrder fv t m order)"
  by (simp add: validate_def firstFailure_def checksInOrder_def Let_def)

lemma firstFailure_nth:
  "i < length rs \<Longrightarrow> \<not> valid (rs ! i) \<Longrightarrow> (\<forall>j<i. valid (rs ! j)) \<Longrightarrow> firstFailure rs = rs ! i"
proof (induction rs arbitrary: i)
  case Nil
  then show ?case by simp
next
  case (Cons r rs)
  show ?case
  proof (cases i)
    case 0
    with Cons.prems show ?thesis by (simp add: firstFailure_def)
  next
    case (Suc k)
    with Cons.prems have v: "valid r" by auto
    from Suc Cons.prems have "firstFailure rs = rs ! k"
      by (intro Cons.IH) auto
    with v Suc show ?thesis by (simp add: firstFailure_def)
  qed
qed

lemma firstFailure_all_valid: "list_all valid rs \<Longrightarrow> firstFailure rs = ok"
  by (induction rs) (auto simp: firstFailure_def)

lemma validateOutput_checks:
  "validateOutput fv output = firstFailedCheck (outputChecks fv output)"
  by (simp add: validateOutput_def firstFailedCheck_def outputChecks_def isValidUint256_def
        not_le not_less)

lemma validateOutput_invalid: "validateOutput fv output = Some r \<Longrightarrow> \<not> valid r"
  by (auto simp: validateOutput_def valid_failure split: if_splits)

lemma firstFailedCheck_append:
  "firstFailedCheck (xs @ ys) =
     (case firstFailedCheck xs of Some r \<Rightarrow> Some r | None \<Rightarrow> firstFailedCheck ys)"
  by (induction xs) (auto simp: firstFailedCheck_def)

lemma validateOutputs_flat:
  "validateOutputs fv outs =
     (case firstFailedCheck (concat (map (outputChecks fv) outs)) of None \<Rightarrow> ok | Some r \<Rightarrow> r)"
proof (induction outs)
  case Nil
  show ?case by (simp add: firstFailedCheck_def)
next
  case (Cons a outs)
  show ?case
    by (cases "firstFailedCheck (outputChecks fv a)")
       (simp_all add: firstFailedCheck_append validateOutput_checks Cons.IH)
qed

lemma validateOutputs_nth:
  "i < length outs \<Longrightarrow> validateOutput fv (outs ! i) = Some r \<Longrightarrow>
   (\<forall>j<i. validateOutput fv (outs ! j) = None) \<Longrightarrow> validateOutputs fv outs = r"
proof (induction outs arbitrary: i)
  case Nil
  then show ?case by simp
next
  case (Cons a outs)
  show ?case
  proof (cases i)
    case 0
    with Cons.prems show ?thesis by simp
  next
    case (Suc k)
    with Cons.prems have v: "validateOutput fv a = None" by auto
    from Suc Cons.prems have "validateOutputs fv outs = r"
      by (intro Cons.IH) auto
    with v show ?thesis by simp
  qed
qed

text \<open>
  Claim C5. For every order and clock, \<open>validate\<close> returns the response of the first of
  its nine checks that fails, the checks taken in the order deadline, start time, nonce,
  offerer, reactor, input token, input amount, outputs, hash; when all pass it returns the
  valid response, which has no reason. The outputs check takes the outputs in list order
  and, within one output, the checks token, recipient, start amount, end amount, end
  amount at most start amount; the first failed check of the first failing output is the
  result of the whole validation when the seven checks before it pass.
\<close>

theorem validate_first_failure_in_order:
  "validate fv t m order = firstFailure (checksInOrder fv t m order) \<and>
   (\<forall>i < length (checksInOrder fv t m order).
      \<not> valid (checksInOrder fv t m order ! i) \<and>
      (\<forall>j<i. valid (checksInOrder fv t m order ! j)) \<longrightarrow>
      validate fv t m order = checksInOrder fv t m order ! i) \<and>
   (list_all valid (checksInOrder fv t m order) \<longrightarrow>
      validate fv t m order = \<lparr> valid = True, errorString = None \<rparr>) \<and>
   validateOutput fv output = firstFailedCheck (outputChecks fv output) \<and>
   validateOutputs fv outs =
     (case firstFailedCheck (concat (map (outputChecks fv) outs)) of None \<Rightarrow> ok | Some r \<Rightarrow> r) \<and>
   (\<forall>i < length (outputs order).
      validateOutput fv (outputs order ! i) = Some r \<and>
      (\<forall>j<i. validateOutput fv (outputs order ! j) = None) \<and>
      list_all valid (take 7 (checksInOrder fv t m order)) \<longrightarrow>
      validate fv t m order = r)"
proof (intro conjI allI impI)
  show "validate fv t m order = firstFailure (checksInOrder fv t m order)"
    by (rule validate_firstFailure)
next
  fix i
  assume "i < length (checksInOrder fv t m order)"
    and "\<not> valid (checksInOrder fv t m order ! i) \<and>
         (\<forall>j<i. valid (checksInOrder fv t m order ! j))"
  then show "validate fv t m order = checksInOrder fv t m order ! i"
    by (simp add: validate_firstFailure firstFailure_nth)
next
  assume "list_all valid (checksInOrder fv t m order)"
  then show "validate fv t m order = \<lparr> valid = True, errorString = None \<rparr>"
    by (simp add: validate_firstFailure firstFailure_all_valid ok_def)
next
  show "validateOutput fv output = firstFailedCheck (outputChecks fv output)"
    by (rule validateOutput_checks)
next
  show "validateOutputs fv outs =
     (case firstFailedCheck (concat (map (outputChecks fv) outs)) of None \<Rightarrow> ok | Some r \<Rightarrow> r)"
    by (rule validateOutputs_flat)
next
  fix i
  assume i: "i < length (outputs order)"
    and h: "validateOutput fv (outputs order ! i) = Some r \<and>
      (\<forall>j<i. validateOutput fv (outputs order ! j) = None) \<and>
      list_all valid (take 7 (checksInOrder fv t m order))"
  then have o: "validateOutputs fv (outputs order) = r"
    by (simp add: validateOutputs_nth)
  have nv: "\<not> valid r"
    using h validateOutput_invalid by blast
  from h have "list_all valid (take 7 (checksInOrder fv t m order))"
    by simp
  then show "validate fv t m order = r"
    using o nv by (simp add: validate_def Let_def checksInOrder_def)
qed

lemmas show_simps = show_int_def show_nat_digit show_nat_more digit_char_def

theorem validate_first_failure_in_order_witness:
  "validate exampleFieldValidator (\<lambda>_. 1000) 60
     (exampleOrder\<lparr> startTime := 2000, offerer := ''nobody'' \<rparr>)
     = failure ''Invalid startTime: startTime > deadline'' \<and>
   validate exampleFieldValidator (\<lambda>_. 1000) 60 exampleOrder
     = \<lparr> valid = True, errorString = None \<rparr> \<and>
   validate exampleFieldValidator (\<lambda>_. 1000) 60
     (exampleOrder\<lparr> outputs := outputs exampleOrder @
        [\<lparr> out_token = ''0xoutput'', out_recipient = ''0xrecipient'',
           out_startAmount = 1, out_endAmount = 2 \<rparr>,
         \<lparr> out_token = ''bad'', out_recipient = ''0xrecipient'',
           out_startAmount = 1, out_endAmount = 1 \<rparr>],
        order_hash := ''bad'' \<rparr>)
     = failure ''Invalid endAmount > startAmount''"
proof -
  let ?fv = exampleFieldValidator
  let ?t = "\<lambda>_::unit. 1000::int"
  let ?o1 = "exampleOrder\<lparr> startTime := 2000, offerer := ''nobody'' \<rparr>"
  let ?o3 = "exampleOrder\<lparr> outputs := outputs exampleOrder @
        [\<lparr> out_token = ''0xoutput'', out_recipient = ''0xrecipient'',
           out_startAmount = 1, out_endAmount = 2 \<rparr>,
         \<lparr> out_token = ''bad'', out_recipient = ''0xrecipient'',
           out_startAmount = 1, out_endAmount = 1 \<rparr>],
        order_hash := ''bad'' \<rparr>"
  have a: "validate ?fv ?t 60 ?o1 = checksInOrder ?fv ?t 60 ?o1 ! 1"
    using validate_first_failure_in_order[of ?fv ?t 60 ?o1,
        THEN conjunct2, THEN conjunct1, rule_format, of 1]
    by (simp add: validator_defs show_simps less_Suc_eq)
  have b: "validate ?fv ?t 60 exampleOrder = \<lparr> valid = True, errorString = None \<rparr>"
    using validate_first_failure_in_order[of ?fv ?t 60 exampleOrder,
        THEN conjunct2, THEN conjunct2, THEN conjunct1]
    by (simp add: validator_defs show_simps)
  have c: "validate ?fv ?t 60 ?o3 = failure ''Invalid endAmount > startAmount''"
    using validate_first_failure_in_order[of ?fv ?t 60 ?o3 _ _
        "failure ''Invalid endAmount > startAmount''",
        THEN conjunct2, THEN conjunct2, THEN conjunct2, THEN conjunct2, THEN conjunct2,
        rule_format, of 1]
    by (simp add: validator_defs show_simps less_Suc_eq)
  from a b c show ?thesis
    by (simp add: validator_defs)
qed

section \<open>The deadline and start-time gates\<close>

lemma validate_deadline_fail:
  "\<not> valid (validateDeadline t m (deadline order)) \<Longrightarrow>
   validate fv t m order = validateDeadline t m (deadline order)"
  by (simp add: validate_def Let_def)

lemma validate_startTime_fail:
  "valid (validateDeadline t m (deadline order)) \<Longrightarrow> startTime order > deadline order \<Longrightarrow>
   validate fv t m order = failure ''Invalid startTime: startTime > deadline''"
  by (simp add: validate_def Let_def validateStartTime_def valid_failure)

text \<open>
  Claim C6, as stated, fails: the minimum offset is a parameter of the validator, and with
  an offset of two years a deadline 366 days after the clock is above the clock plus one
  year, yet the reason is \<open>Insufficient Deadline\<close>, the check that runs first, not the
  one-year reason.
\<close>

theorem one_year_reason_counterexample:
  "deadline (exampleOrder\<lparr> deadline := 1000 + 366 * (24 * 60 * 60) \<rparr>) >
     1000 + ONE_YEAR_IN_SECONDS \<and>
   validate exampleFieldValidator (\<lambda>_. 1000) (2 * ONE_YEAR_IN_SECONDS)
       (exampleOrder\<lparr> deadline := 1000 + 366 * (24 * 60 * 60) \<rparr>)
     = failure ''Insufficient Deadline'' \<and>
   validate exampleFieldValidator (\<lambda>_. 1000) (2 * ONE_YEAR_IN_SECONDS)
       (exampleOrder\<lparr> deadline := 1000 + 366 * (24 * 60 * 60) \<rparr>)
     \<noteq> failure ''Deadline field invalid: Order expiry cannot be larger than one year''"
  by (simp add: validate_deadline_fail validateDeadline_def valid_failure
        ONE_YEAR_IN_SECONDS_def failure_def)

text \<open>
  Claim C6, amended. For every order, clock value \<open>t ()\<close> and minimum offset \<open>m\<close>:
  \<open>validate\<close> fails with the reason \<open>Insufficient Deadline\<close> whenever the deadline is
  below \<open>t () + m\<close>; it fails whenever the deadline is above \<open>t ()\<close> plus one year, with
  the one-year reason when the deadline is not below \<open>t () + m\<close>, which is always so when
  the offset is at most one year (the default is 60), so that a deadline of \<open>t ()\<close> plus
  366 days then fails with the one-year reason; it fails whenever the start time is after
  the deadline, whatever the deadline, with the start-time reason when the deadline is
  valid; and an order within all three bounds passes both gates, the result of
  \<open>validate\<close> being that of the seven remaining checks.
\<close>

theorem deadline_and_startTime_gates:
  "(deadline order < t () + m \<longrightarrow>
      validate fv t m order = failure ''Insufficient Deadline'') \<and>
   (deadline order > t () + ONE_YEAR_IN_SECONDS \<longrightarrow>
      \<not> valid (validate fv t m order) \<and>
      (t () + m \<le> deadline order \<longrightarrow>
         validate fv t m order =
           failure ''Deadline field invalid: Order expiry cannot be larger than one year'')) \<and>
   (m \<le> ONE_YEAR_IN_SECONDS \<and> deadline order > t () + ONE_YEAR_IN_SECONDS \<longrightarrow>
      validate fv t m order =
        failure ''Deadline field invalid: Order expiry cannot be larger than one year'') \<and>
   (m \<le> ONE_YEAR_IN_SECONDS \<and> deadline order = t () + 366 * (24 * 60 * 60) \<longrightarrow>
      validate fv t m order =
        failure ''Deadline field invalid: Order expiry cannot be larger than one year'') \<and>
   (startTime order > deadline order \<longrightarrow>
      \<not> valid (validate fv t m order) \<and>
      (valid (validateDeadline t m (deadline order)) \<longrightarrow>
         validate fv t m order = failure ''Invalid startTime: startTime > deadline'')) \<and>
   (t () + m \<le> deadline order \<and> deadline order \<le> t () + ONE_YEAR_IN_SECONDS \<and>
    startTime order \<le> deadline order \<longrightarrow>
      validateDeadline t m (deadline order) = ok \<and>
      validateStartTime (startTime order) (deadline order) = ok \<and>
      validate fv t m order = firstFailure (drop 2 (checksInOrder fv t m order)))"
proof (intro conjI impI)
  assume "deadline order < t () + m"
  then show "validate fv t m order = failure ''Insufficient Deadline''"
    by (simp add: validate_deadline_fail validateDeadline_def valid_failure)
next
  assume "deadline order > t () + ONE_YEAR_IN_SECONDS"
  then have "\<not> valid (validateDeadline t m (deadline order))"
    by (simp add: validateDeadline_def valid_failure)
  then show "\<not> valid (validate fv t m order)"
    by (simp add: validate_deadline_fail)
next
  assume "deadline order > t () + ONE_YEAR_IN_SECONDS" "t () + m \<le> deadline order"
  then show "validate fv t m order =
        failure ''Deadline field invalid: Order expiry cannot be larger than one year''"
    by (simp add: validate_deadline_fail validateDeadline_def valid_failure)
next
  assume "m \<le> ONE_YEAR_IN_SECONDS \<and> deadline order > t () + ONE_YEAR_IN_SECONDS"
  then show "validate fv t m order =
        failure ''Deadline field invalid: Order expiry cannot be larger than one year''"
    by (simp add: validate_deadline_fail validateDeadline_def valid_failure)
next
  assume "m \<le> ONE_YEAR_IN_SECONDS \<and> deadline order = t () + 366 * (24 * 60 * 60)"
  then have "m \<le> ONE_YEAR_IN_SECONDS" "deadline order > t () + ONE_YEAR_IN_SECONDS"
    by (simp_all add: ONE_YEAR_IN_SECONDS_def)
  then show "validate fv t m order =
        failure ''Deadline field invalid: Order expiry cannot be larger than one year''"
    by (simp add: validate_deadline_fail validateDeadline_def valid_failure)
next
  assume st: "startTime order > deadline order"
  show "\<not> valid (validate fv t m order)"
  proof (cases "valid (validateDeadline t m (deadline order))")
    case True
    then show ?thesis
      using st by (simp add: validate_startTime_fail valid_failure)
  next
    case False
    then show ?thesis
      by (simp add: validate_deadline_fail)
  qed
next
  assume "startTime order > deadline order" "valid (validateDeadline t m (deadline order))"
  then show "validate fv t m order = failure ''Invalid startTime: startTime > deadline''"
    by (simp add: validate_startTime_fail)
next
  assume a: "t () + m \<le> deadline order \<and> deadline order \<le> t () + ONE_YEAR_IN_SECONDS \<and>
    startTime order \<le> deadline order"
  then show d: "validateDeadline t m (deadline order) = ok"
    by (simp add: validateDeadline_def)
  from a show s: "validateStartTime (startTime order) (deadline order) = ok"
    by (simp add: validateStartTime_def)
  show "validate fv t m order = firstFailure (drop 2 (checksInOrder fv t m order))"
    by (simp add: validate_firstFailure checksInOrder_def firstFailure_def d s valid_ok)
qed

theorem deadline_and_startTime_gates_witness:
  "validate exampleFieldValidator (\<lambda>_. 1000) 60 (exampleOrder\<lparr> deadline := 1030 \<rparr>)
     = failure ''Insufficient Deadline'' \<and>
   validate exampleFieldValidator (\<lambda>_. 1000) 60
       (exampleOrder\<lparr> deadline := 1000 + 366 * (24 * 60 * 60) \<rparr>)
     = failure ''Deadline field invalid: Order expiry cannot be larger than one year'' \<and>
   validate exampleFieldValidator (\<lambda>_. 1000) 60 (exampleOrder\<lparr> deadline := 31537001 \<rparr>)
     = failure ''Deadline field invalid: Order expiry cannot be larger than one year'' \<and>
   \<not> valid (validate exampleFieldValidator (\<lambda>_. 1000) (2 * ONE_YEAR_IN_SECONDS)
       (exampleOrder\<lparr> deadline := 1000 + 366 * (24 * 60 * 60) \<rparr>)) \<and>
   validate exampleFieldValidator (\<lambda>_. 1000) 100
       (exampleOrder\<lparr> deadline := 1000 + 3 * ONE_YEAR_IN_SECONDS \<rparr>)
     = failure ''Deadline field invalid: Order expiry cannot be larger than one year'' \<and>
   validate exampleFieldValidator (\<lambda>_. 1000) 60 (exampleOrder\<lparr> startTime := 2000 \<rparr>)
     = failure ''Invalid startTime: startTime > deadline'' \<and>
   \<not> valid (validate exampleFieldValidator (\<lambda>_. 1000) 60
       (exampleOrder\<lparr> deadline := 1030, startTime := 2000 \<rparr>)) \<and>
   validateDeadline (\<lambda>_. 1000) 60 (deadline exampleOrder) = ok \<and>
   validateStartTime (startTime exampleOrder) (deadline exampleOrder) = ok"
proof -
  let ?fv = exampleFieldValidator
  let ?t = "\<lambda>_::unit. 1000::int"
  note g = deadline_and_startTime_gates[where t = ?t and fv = ?fv]
  have a: "validate ?fv ?t 60 (exampleOrder\<lparr> deadline := 1030 \<rparr>) = failure ''Insufficient Deadline''"
    using g[where m = 60 and order = "exampleOrder\<lparr> deadline := 1030 \<rparr>", THEN conjunct1]
    by (simp add: exampleOrder_def)
  have b: "validate ?fv ?t 60 (exampleOrder\<lparr> deadline := 1000 + 366 * (24 * 60 * 60) \<rparr>)
     = failure ''Deadline field invalid: Order expiry cannot be larger than one year''"
    using g[where m = 60 and order = "exampleOrder\<lparr> deadline := 1000 + 366 * (24 * 60 * 60) \<rparr>",
        THEN conjunct2, THEN conjunct2, THEN conjunct2, THEN conjunct1]
    by (simp add: exampleOrder_def ONE_YEAR_IN_SECONDS_def)
  have c: "validate ?fv ?t 60 (exampleOrder\<lparr> deadline := 31537001 \<rparr>)
     = failure ''Deadline field invalid: Order expiry cannot be larger than one year''"
    using g[where m = 60 and order = "exampleOrder\<lparr> deadline := 31537001 \<rparr>",
        THEN conjunct2, THEN conjunct2, THEN conjunct1]
    by (simp add: exampleOrder_def ONE_YEAR_IN_SECONDS_def)
  have c2: "\<not> valid (validate ?fv ?t (2 * ONE_YEAR_IN_SECONDS)
       (exampleOrder\<lparr> deadline := 1000 + 366 * (24 * 60 * 60) \<rparr>))"
    using g[where m = "2 * ONE_YEAR_IN_SECONDS"
        and order = "exampleOrder\<lparr> deadline := 1000 + 366 * (24 * 60 * 60) \<rparr>",
        THEN conjunct2, THEN conjunct1]
    by (simp add: exampleOrder_def ONE_YEAR_IN_SECONDS_def)
  have c3: "validate ?fv ?t 100 (exampleOrder\<lparr> deadline := 1000 + 3 * ONE_YEAR_IN_SECONDS \<rparr>)
     = failure ''Deadline field invalid: Order expiry cannot be larger than one year''"
    using g[where m = 100 and order = "exampleOrder\<lparr> deadline := 1000 + 3 * ONE_YEAR_IN_SECONDS \<rparr>",
        THEN conjunct2, THEN conjunct1]
    by (simp add: exampleOrder_def ONE_YEAR_IN_SECONDS_def)
  have d: "validate ?fv ?t 60 (exampleOrder\<lparr> startTime := 2000 \<rparr>)
     = failure ''Invalid startTime: startTime > deadline''"
    using g[where m = 60 and order = "exampleOrder\<lparr> startTime := 2000 \<rparr>",
        THEN conjunct2, THEN conjunct2, THEN conjunct2, THEN conjunct2, THEN conjunct1]
    by (simp add: exampleOrder_def validateDeadline_def ONE_YEAR_IN_SECONDS_def ok_def)
  have e: "\<not> valid (validate ?fv ?t 60 (exampleOrder\<lparr> deadline := 1030, startTime := 2000 \<rparr>))"
    using g[where m = 60 and order = "exampleOrder\<lparr> deadline := 1030, startTime := 2000 \<rparr>",
        THEN conjunct2, THEN conjunct2, THEN conjunct2, THEN conjunct2, THEN conjunct1]
    by (simp add: exampleOrder_def)
  have f: "validateDeadline ?t 60 (deadline exampleOrder) = ok \<and>
           validateStartTime (startTime exampleOrder) (deadline exampleOrder) = ok"
    using g[where m = 60 and order = exampleOrder,
        THEN conjunct2, THEN conjunct2, THEN conjunct2, THEN conjunct2, THEN conjunct2]
    by (simp add: exampleOrder_def ONE_YEAR_IN_SECONDS_def)
  from a b c c2 c3 d e f show ?thesis
    by simp
qed

section \<open>The options of a range query\<close>

lemmas query_defs = getOrders_def areParamsRequested_def getRequestedParams_def lookup_def
  queryOrderEntity_def formattedIndex_def Let_def
  GQP_FILLER_def GQP_OFFERER_def GQP_ORDER_STATUS_def GQP_CHAIN_ID_def
  GQP_ORDER_HASH_def GQP_ORDER_HASHES_def GQP_SORT_KEY_def GQP_SORT_def GQP_DESC_def
  TK_FILLER_def TK_OFFERER_def TK_ORDER_STATUS_def TK_CHAIN_ID_def TK_CREATED_AT_def
  TK_ORDER_HASH_def getByOfferer_def getByFiller_def getByChainId_def getByOrderStatus_def
  MAX_ORDERS_def

lemma formattedIndex_sortKeyName:
  "formattedIndex idx sortKey = idx @ ''-'' @ sortKeyName sortKey @ ''-all''"
  by (simp add: formattedIndex_def sortKeyName_def TK_CREATED_AT_def)

lemma queryOrderEntity_Inr:
  assumes "queryOrderEntity c pk idx limit cursor sk so de = Inr r"
  shows "\<exists>opts. r = Query pk opts \<and>
           q_index opts = formattedIndex idx sk \<and>
           q_limit opts = (case limit of None \<Rightarrow> MAX_ORDERS
                           | Some l \<Rightarrow> if l \<noteq> 0 then min l MAX_ORDERS else MAX_ORDERS) \<and>
           q_reverse opts =
             (if truthy sk \<and> (\<exists>cmp. parseComparisonFilter c so = Inr (Some cmp))
              then Some (if de = Undefined then Bool True else de) else None)"
  using assms
  by (auto simp: queryOrderEntity_def Let_def split: sum.splits option.splits if_splits)

lemma getOrders_Query:
  assumes "getOrders c limit qf cursor = Inr (Query pk opts)"
  shows "\<exists>idx \<in> set (map snd catalog).
           queryOrderEntity c pk idx limit cursor
             (lookup qf ''sortKey'') (lookup qf ''sort'') (lookup qf ''desc'') = Inr (Query pk opts)"
proof -
  have pk: "\<And>p i. queryOrderEntity c p i limit cursor
             (lookup qf ''sortKey'') (lookup qf ''sort'') (lookup qf ''desc'') = Inr (Query pk opts)
             \<Longrightarrow> p = pk"
    by (auto dest: queryOrderEntity_Inr)
  show ?thesis
    using assms
    unfolding getOrders_def Let_def getByOfferer_def getByFiller_def getByChainId_def
      getByOrderStatus_def
    by (auto simp: catalog_def TK_FILLER_def TK_OFFERER_def TK_ORDER_STATUS_def TK_CHAIN_ID_def
          split: if_splits jsval.splits dest: pk)
qed

lemma effective_limit_cases:
  fixes l :: int
  shows "(case limit of None \<Rightarrow> MAX_ORDERS
          | Some l \<Rightarrow> if l \<noteq> 0 then min l MAX_ORDERS else MAX_ORDERS) \<le> 50"
  by (simp add: MAX_ORDERS_def split: option.splits)

text \<open>
  Claim C7. For every range query that \<open>queryOrderEntity\<close> issues, directly or routed by
  \<open>getOrders\<close>, the limit passed to the store is the smaller of the requested limit and
  50 when a positive limit is requested, and 50 when the requested limit is 0 or absent;
  it is never above 50, whatever the caller gives.
\<close>

theorem query_limit_clamped:
  "MAX_ORDERS = 50 \<and>
   (queryOrderEntity c pk idx limit cursor sk so de = Inr call \<longrightarrow>
      (\<exists>opts. call = Query pk opts \<and>
         (\<forall>l. limit = Some l \<and> 0 < l \<longrightarrow> q_limit opts = min l 50) \<and>
         (limit = None \<or> limit = Some 0 \<longrightarrow> q_limit opts = 50) \<and>
         q_limit opts \<le> 50)) \<and>
   (getOrders c limit qf cursor = Inr (Query pk' opts') \<longrightarrow>
      (\<forall>l. limit = Some l \<and> 0 < l \<longrightarrow> q_limit opts' = min l 50) \<and>
      (limit = None \<or> limit = Some 0 \<longrightarrow> q_limit opts' = 50) \<and>
      q_limit opts' \<le> 50)"
proof (intro conjI impI)
  show "MAX_ORDERS = 50"
    by (simp add: MAX_ORDERS_def)
next
  assume "queryOrderEntity c pk idx limit cursor sk so de = Inr call"
  from queryOrderEntity_Inr[OF this] obtain opts where
    o: "call = Query pk opts" and
    l: "q_limit opts = (case limit of None \<Rightarrow> MAX_ORDERS
                        | Some l \<Rightarrow> if l \<noteq> 0 then min l MAX_ORDERS else MAX_ORDERS)"
    by blast
  from l have "(\<forall>l. limit = Some l \<and> 0 < l \<longrightarrow> q_limit opts = min l 50) \<and>
         (limit = None \<or> limit = Some 0 \<longrightarrow> q_limit opts = 50) \<and> q_limit opts \<le> 50"
    by (auto simp: MAX_ORDERS_def split: option.splits)
  with o show "\<exists>opts. call = Query pk opts \<and>
         (\<forall>l. limit = Some l \<and> 0 < l \<longrightarrow> q_limit opts = min l 50) \<and>
         (limit = None \<or> limit = Some 0 \<longrightarrow> q_limit opts = 50) \<and>
         q_limit opts \<le> 50"
    by blast
next
  assume "getOrders c limit qf cursor = Inr (Query pk' opts')"
  from getOrders_Query[OF this] obtain idx where
    "queryOrderEntity c pk' idx limit cursor
       (lookup qf ''sortKey'') (lookup qf ''sort'') (lookup qf ''desc'') = Inr (Query pk' opts')"
    by blast
  from queryOrderEntity_Inr[OF this] have
    l: "q_limit opts' = (case limit of None \<Rightarrow> MAX_ORDERS
                         | Some l \<Rightarrow> if l \<noteq> 0 then min l MAX_ORDERS else MAX_ORDERS)"
    by auto
  from l show "\<forall>l. limit = Some l \<and> 0 < l \<longrightarrow> q_limit opts' = min l 50"
    by (auto simp: MAX_ORDERS_def)
  from l show "limit = None \<or> limit = Some 0 \<Longrightarrow> q_limit opts' = 50"
    by (auto simp: MAX_ORDERS_def)
  from l show "q_limit opts' \<le> 50"
    by (auto simp: MAX_ORDERS_def split: option.splits)
qed

theorem query_limit_clamped_witness:
  "getOrders exampleCollaborators (Some 100) exampleFilters None =
     Inr (Query (Str ''0xofferer_open'')
       \<lparr> q_index = ''offerer_orderStatus-createdAt-all'', q_limit = 50, q_comparison = None,
         q_reverse = None, q_startKey = None \<rparr>) \<and>
   getOrders exampleCollaborators (Some 10) exampleFilters None =
     Inr (Query (Str ''0xofferer_open'')
       \<lparr> q_index = ''offerer_orderStatus-createdAt-all'', q_limit = 10, q_comparison = None,
         q_reverse = None, q_startKey = None \<rparr>) \<and>
   getOrders exampleCollaborators (Some 0) exampleFilters None =
     Inr (Query (Str ''0xofferer_open'')
       \<lparr> q_index = ''offerer_orderStatus-createdAt-all'', q_limit = 50, q_comparison = None,
         q_reverse = None, q_startKey = None \<rparr>) \<and>
   getOrders exampleCollaborators None exampleFilters None =
     Inr (Query (Str ''0xofferer_open'')
       \<lparr> q_index = ''offerer_orderStatus-createdAt-all'', q_limit = 50, q_comparison = None,
         q_reverse = None, q_startKey = None \<rparr>)"
proof -
  let ?c = exampleCollaborators
  let ?pk = "Str ''0xofferer_open''"
  let ?o = "\<lambda>n. \<lparr> q_index = ''offerer_orderStatus-createdAt-all'', q_limit = n,
         q_comparison = None, q_reverse = None, q_startKey = None \<rparr>"
  have e: "\<And>limit. getOrders ?c limit exampleFilters None =
     Inr (Query ?pk (?o (case limit of None \<Rightarrow> MAX_ORDERS
                           | Some l \<Rightarrow> if l \<noteq> 0 then min l MAX_ORDERS else MAX_ORDERS)))"
    by (simp add: query_defs exampleFilters_def)
  note th = query_limit_clamped[where c = ?c and qf = exampleFilters and cursor = None
      and pk' = ?pk, THEN conjunct2, THEN conjunct2, rule_format]
  have a: "q_limit (?o (min 100 MAX_ORDERS)) = min 100 50"
    using th[where limit = "Some 100" and opts' = "?o (min 100 MAX_ORDERS)",
        THEN conjunct1, rule_format, of 100] e[of "Some 100"]
    by simp
  have b: "q_limit (?o (min 10 MAX_ORDERS)) = min 10 50"
    using th[where limit = "Some 10" and opts' = "?o (min 10 MAX_ORDERS)",
        THEN conjunct1, rule_format, of 10] e[of "Some 10"]
    by simp
  have c: "q_limit (?o MAX_ORDERS) = 50"
    using th[where limit = "Some 0" and opts' = "?o MAX_ORDERS", THEN conjunct2, THEN conjunct1]
      e[of "Some 0"]
    by simp
  have d: "q_limit (?o MAX_ORDERS) = 50"
    using th[where limit = None and opts' = "?o MAX_ORDERS", THEN conjunct2, THEN conjunct1]
      e[of None]
    by simp
  from a b c d show ?thesis
    by (simp add: e)
qed

section \<open>Sort key and scan direction\<close>

lemma queryOrderEntity_Query:
  assumes "queryOrderEntity c pk idx limit cursor sk so de = Inr (Query pk2 opts)"
  shows "pk2 = pk"
    and "q_index opts = idx @ ''-'' @ sortKeyName sk @ ''-all''"
    and "q_reverse opts =
           (if truthy sk \<and> (\<exists>cmp. parseComparisonFilter c so = Inr (Some cmp))
            then Some (if de = Undefined then Bool True else de) else None)"
  using assms
  by (auto simp: queryOrderEntity_def Let_def formattedIndex_def sortKeyName_def TK_CREATED_AT_def
        split: sum.splits option.splits if_splits)

text \<open>
  Claim C8, as stated, fails: a query with no sort key and no \<open>desc\<close> flag passes no
  scan direction to the store at all, so the store's own default applies, not descending.
  The example query by offerer and status shows it.
\<close>

theorem default_direction_counterexample:
  "(case getOrders exampleCollaborators (Some 10) exampleFilters None of
      Inr (Query pk opts) \<Rightarrow>
        pk = Str ''0xofferer_open'' \<and>
        q_index opts = ''offerer_orderStatus-createdAt-all'' \<and>
        q_reverse opts = None \<and>
        q_reverse opts \<noteq> Some (Bool True)
    | _ \<Rightarrow> False)"
  by (simp add: query_defs exampleFilters_def)

text \<open>
  Claim C8, amended. For every range query, issued directly or routed by \<open>getOrders\<close>, the
  index queried is the index name followed by the sort key, the caller's when it gave one
  and \<open>createdAt\<close> otherwise. A scan direction is passed to the store only when a sort key
  is given and a comparison was parsed for it; it is then the \<open>desc\<close> flag when supplied
  and descending (\<open>true\<close>) otherwise. Without a sort key or without a comparison no
  direction is passed.
\<close>

theorem sort_key_and_direction:
  "(queryOrderEntity c pk idx limit cursor sk so de = Inr call \<longrightarrow>
      (\<exists>opts. call = Query pk opts \<and>
         q_index opts = idx @ ''-'' @ sortKeyName sk @ ''-all'' \<and>
         q_reverse opts =
           (if truthy sk \<and> (\<exists>cmp. parseComparisonFilter c so = Inr (Some cmp))
            then Some (if de = Undefined then Bool True else de) else None))) \<and>
   (getOrders c limit qf cursor = Inr (Query pk' opts') \<longrightarrow>
      (\<exists>idx \<in> set (map snd catalog).
         q_index opts' = idx @ ''-'' @ sortKeyName (lookup qf ''sortKey'') @ ''-all'') \<and>
      q_reverse opts' =
        (if truthy (lookup qf ''sortKey'') \<and>
            (\<exists>cmp. parseComparisonFilter c (lookup qf ''sort'') = Inr (Some cmp))
         then Some (if lookup qf ''desc'' = Undefined then Bool True else lookup qf ''desc'')
         else None)) \<and>
   sortKeyName Undefined = ''createdAt'' \<and>
   (\<not> nullish sk \<longrightarrow> sortKeyName sk = toStr sk)"
proof (intro conjI impI)
  assume a: "queryOrderEntity c pk idx limit cursor sk so de = Inr call"
  from queryOrderEntity_Inr[OF a] obtain opts where o: "call = Query pk opts"
    by (elim exE conjE)
  from a o have q: "queryOrderEntity c pk idx limit cursor sk so de = Inr (Query pk opts)"
    by simp
  from o queryOrderEntity_Query(2)[OF q] queryOrderEntity_Query(3)[OF q]
  show "\<exists>opts. call = Query pk opts \<and>
         q_index opts = idx @ ''-'' @ sortKeyName sk @ ''-all'' \<and>
         q_reverse opts =
           (if truthy sk \<and> (\<exists>cmp. parseComparisonFilter c so = Inr (Some cmp))
            then Some (if de = Undefined then Bool True else de) else None)"
    by (intro exI conjI)
next
  assume "getOrders c limit qf cursor = Inr (Query pk' opts')"
  from getOrders_Query[OF this] obtain idx where
    i: "idx \<in> set (map snd catalog)" and
    q: "queryOrderEntity c pk' idx limit cursor
       (lookup qf ''sortKey'') (lookup qf ''sort'') (lookup qf ''desc'') = Inr (Query pk' opts')"
    by (elim bexE)
  from queryOrderEntity_Query(2)[OF q] i
  show "\<exists>idx \<in> set (map snd catalog).
         q_index opts' = idx @ ''-'' @ sortKeyName (lookup qf ''sortKey'') @ ''-all''"
    by (rule bexI)
  from queryOrderEntity_Query(3)[OF q]
  show "q_reverse opts' =
        (if truthy (lookup qf ''sortKey'') \<and>
            (\<exists>cmp. parseComparisonFilter c (lookup qf ''sort'') = Inr (Some cmp))
         then Some (if lookup qf ''desc'' = Undefined then Bool True else lookup qf ''desc'')
         else None)" .
next
  show "sortKeyName Undefined = ''createdAt''"
    by (simp add: sortKeyName_def)
next
  assume "\<not> nullish sk"
  then show "sortKeyName sk = toStr sk"
    by (simp add: sortKeyName_def)
qed


theorem sort_key_and_direction_witness:
  "getOrders exampleCollaborators (Some 10)
      (exampleFilters @ [(''sortKey'', Str ''createdAt''), (''sort'', Str ''gt(5)'')]) None =
     Inr (Query (Str ''0xofferer_open'')
       \<lparr> q_index = ''offerer_orderStatus-createdAt-all'', q_limit = 10,
         q_comparison = Some (''gt'', Num 5), q_reverse = Some (Bool True),
         q_startKey = None \<rparr>) \<and>
   getOrders exampleCollaborators (Some 10)
      (exampleFilters @ [(''sortKey'', Str ''createdAt''), (''sort'', Str ''gt(5)''),
                         (''desc'', Bool False)]) None =
     Inr (Query (Str ''0xofferer_open'')
       \<lparr> q_index = ''offerer_orderStatus-createdAt-all'', q_limit = 10,
         q_comparison = Some (''gt'', Num 5), q_reverse = Some (Bool False),
         q_startKey = None \<rparr>) \<and>
   getOrders exampleCollaborators (Some 10) (exampleFilters @ [(''desc'', Bool True)]) None =
     Inr (Query (Str ''0xofferer_open'')
       \<lparr> q_index = ''offerer_orderStatus-createdAt-all'', q_limit = 10,
         q_comparison = None, q_reverse = None, q_startKey = None \<rparr>)"
proof -
  let ?c = exampleCollaborators
  let ?pk = "Str ''0xofferer_open''"
  let ?f1 = "exampleFilters @ [(''sortKey'', Str ''createdAt''), (''sort'', Str ''gt(5)'')]"
  let ?f2 = "exampleFilters @ [(''sortKey'', Str ''createdAt''), (''sort'', Str ''gt(5)''),
                         (''desc'', Bool False)]"
  let ?f3 = "exampleFilters @ [(''desc'', Bool True)]"
  let ?o = "\<lambda>cm r. \<lparr> q_index = ''offerer_orderStatus-createdAt-all'', q_limit = 10,
         q_comparison = cm, q_reverse = r, q_startKey = None \<rparr>"
  have p: "parseComparisonFilter ?c (Str ''gt(5)'') =
             Inr (Some \<lparr> operator = GT, values_of = [5] \<rparr>)"
    by (simp add: exampleCollaborators_def)
  have e1: "\<exists>cm r. getOrders ?c (Some 10) ?f1 None = Inr (Query ?pk (?o cm r)) \<and>
              cm = Some (''gt'', Num 5)"
    by (simp add: query_defs exampleFilters_def exampleCollaborators_def comparisonOperand_def)
  have e2: "\<exists>cm r. getOrders ?c (Some 10) ?f2 None = Inr (Query ?pk (?o cm r)) \<and>
              cm = Some (''gt'', Num 5)"
    by (simp add: query_defs exampleFilters_def exampleCollaborators_def comparisonOperand_def)
  have e3: "\<exists>cm r. getOrders ?c (Some 10) ?f3 None = Inr (Query ?pk (?o cm r)) \<and> cm = None"
    by (simp add: query_defs exampleFilters_def exampleCollaborators_def comparisonOperand_def)
  note th = sort_key_and_direction[where c = ?c and cursor = None and limit = "Some 10"
      and pk' = ?pk, THEN conjunct2, THEN conjunct1, rule_format, THEN conjunct2]
  from e1 obtain r1 where
    g1: "getOrders ?c (Some 10) ?f1 None = Inr (Query ?pk (?o (Some (''gt'', Num 5)) r1))"
    by auto
  from th[OF g1] p have r1: "r1 = Some (Bool True)"
    by (simp add: lookup_def exampleFilters_def)
  from e2 obtain r2 where
    g2: "getOrders ?c (Some 10) ?f2 None = Inr (Query ?pk (?o (Some (''gt'', Num 5)) r2))"
    by auto
  from th[OF g2] p have r2: "r2 = Some (Bool False)"
    by (simp add: lookup_def exampleFilters_def)
  from e3 obtain r3 where
    g3: "getOrders ?c (Some 10) ?f3 None = Inr (Query ?pk (?o None r3))"
    by auto
  from th[OF g3] have r3: "r3 = None"
    by (simp add: lookup_def exampleFilters_def)
  from g1 g2 g3 r1 r2 r3 show ?thesis
    by simp
qed

section \<open>Routing a filter set to an index\<close>

lemmas route_defs = getOrders_def areParamsRequested_def partitionKeyOf_def Let_def
  GQP_FILLER_def GQP_OFFERER_def GQP_ORDER_STATUS_def GQP_CHAIN_ID_def
  GQP_ORDER_HASH_def GQP_ORDER_HASHES_def
  TK_FILLER_def TK_OFFERER_def TK_ORDER_STATUS_def TK_CHAIN_ID_def
  getByOfferer_def getByFiller_def getByChainId_def getByOrderStatus_def

lemma catalog_cases:
  assumes "(dims, idx) \<in> set catalog"
  shows "dims = [''filler'', ''offerer'', ''orderStatus''] \<and> idx = ''filler_offerer_orderStatus'' \<or>
    dims = [''chainId'', ''filler''] \<and> idx = ''chainId_filler'' \<or>
    dims = [''chainId'', ''orderStatus''] \<and> idx = ''chainId_orderStatus'' \<or>
    dims = [''chainId'', ''orderStatus'', ''filler''] \<and> idx = ''chainId_orderStatus_filler'' \<or>
    dims = [''filler'', ''orderStatus''] \<and> idx = ''filler_orderStatus'' \<or>
    dims = [''filler'', ''offerer''] \<and> idx = ''filler_offerer'' \<or>
    dims = [''offerer'', ''orderStatus''] \<and> idx = ''offerer_orderStatus'' \<or>
    dims = [''offerer''] \<and> idx = ''offerer'' \<or>
    dims = [''orderStatus''] \<and> idx = ''orderStatus'' \<or>
    dims = [''filler''] \<and> idx = ''filler'' \<or>
    dims = [''chainId''] \<and> idx = ''chainId''"
  using assms unfolding catalog_def
  by (simp only: list.set insert_iff empty_iff prod.inject simp_thms)

lemma catalog_distinct: "(dims, idx) \<in> set catalog \<Longrightarrow> distinct dims"
  by (drule catalog_cases) (elim disjE conjE; simp)

lemma catalog_index_inj:
  assumes a: "(d1, i) \<in> set catalog" and b: "(d2, i) \<in> set catalog"
  shows "d1 = d2"
  using catalog_cases[OF a] catalog_cases[OF b]
  by (elim disjE conjE; simp)

lemma areParamsRequested_exact:
  assumes "distinct rp" "distinct qp"
  shows "areParamsRequested qp rp \<longleftrightarrow> set rp = set qp"
proof
  assume a: "areParamsRequested qp rp"
  then have len: "length rp = length qp" and sub: "set qp \<subseteq> set rp"
    by (auto simp: areParamsRequested_def list_all_iff)
  have "card (set qp) = card (set rp)"
    using assms len by (simp add: distinct_card)
  with sub show "set rp = set qp"
    by (metis List.finite_set card_subset_eq)
next
  assume e: "set rp = set qp"
  then have "length rp = length qp"
    using assms by (metis distinct_card)
  with e show "areParamsRequested qp rp"
    by (simp add: areParamsRequested_def list_all_iff)
qed

lemma areParamsRequested_strict:
  assumes "distinct qp" and "set rp \<subset> set qp \<or> set qp \<subset> set rp"
  shows "\<not> areParamsRequested qp rp"
proof
  assume a: "areParamsRequested qp rp"
  then have len: "length rp = length qp" and sub: "set qp \<subseteq> set rp"
    by (auto simp: areParamsRequested_def list_all_iff)
  from sub assms(2) have "set qp \<subset> set rp"
    by blast
  then have "card (set qp) < card (set rp)"
    by (simp add: psubset_card_mono)
  moreover have "card (set rp) \<le> length rp"
    by (rule card_length)
  moreover have "card (set qp) = length qp"
    using assms(1) by (simp add: distinct_card)
  ultimately show False
    using len by simp
qed

lemma distinct_getRequestedParams:
  "distinct (map fst qf) \<Longrightarrow> distinct (getRequestedParams qf)"
  by (simp add: getRequestedParams_def)

lemma getOrders_exact:
  assumes t: "(dims, idx) \<in> set catalog" and d: "distinct (map fst qf)"
    and e: "set (getRequestedParams qf) = set dims"
  shows "getOrders c limit qf cursor =
           queryOrderEntity c (partitionKeyOf dims qf) idx limit cursor
             (lookup qf ''sortKey'') (lookup qf ''sort'') (lookup qf ''desc'')"
proof -
  have len: "length (getRequestedParams qf) = length dims"
    using distinct_getRequestedParams[OF d] catalog_distinct[OF t] e by (metis distinct_card)
  from catalog_cases[OF t] len e show ?thesis
    by (elim disjE conjE; simp add: route_defs)
qed

lemma getOrders_Query_template:
  assumes "getOrders c limit qf cursor = Inr (Query pk opts)"
  shows "\<exists>t \<in> set catalog. areParamsRequested (fst t) (getRequestedParams qf) \<and>
           queryOrderEntity c (partitionKeyOf (fst t) qf) (snd t) limit cursor
             (lookup qf ''sortKey'') (lookup qf ''sort'') (lookup qf ''desc'') = Inr (Query pk opts)"
  using assms
  unfolding getOrders_def Let_def getByOfferer_def getByFiller_def getByChainId_def getByOrderStatus_def
  by (auto simp: catalog_def partitionKeyOf_def
          GQP_FILLER_def GQP_OFFERER_def GQP_ORDER_STATUS_def GQP_CHAIN_ID_def
          TK_FILLER_def TK_OFFERER_def TK_ORDER_STATUS_def TK_CHAIN_ID_def
          split: if_splits jsval.splits)

lemma getOrders_other_index:
  assumes t: "(dims, idx) \<in> set catalog"
    and n: "\<not> areParamsRequested dims (getRequestedParams qf)"
    and g: "getOrders c limit qf cursor = Inr (Query pk opts)"
  shows "q_index opts \<noteq> idx @ ''-'' @ sortKeyName (lookup qf ''sortKey'') @ ''-all''"
proof
  assume eq: "q_index opts = idx @ ''-'' @ sortKeyName (lookup qf ''sortKey'') @ ''-all''"
  from getOrders_Query_template[OF g] obtain t' where
    m: "t' \<in> set catalog" and a: "areParamsRequested (fst t') (getRequestedParams qf)" and
    q: "queryOrderEntity c (partitionKeyOf (fst t') qf) (snd t') limit cursor
             (lookup qf ''sortKey'') (lookup qf ''sort'') (lookup qf ''desc'') = Inr (Query pk opts)"
    by (elim bexE conjE)
  from queryOrderEntity_Query(2)[OF q] eq have "snd t' = idx"
    by simp
  with m have "(fst t', idx) \<in> set catalog"
    by (metis prod.collapse)
  from catalog_index_inj[OF this t] a n show False
    by simp
qed


lemma getRequestedParams_set:
  "set (getRequestedParams qf) = requestedDimensions qf"
  by (auto simp: getRequestedParams_def requestedDimensions_def GQP_SORT_KEY_def GQP_SORT_def
        GQP_DESC_def)

lemma queryOrderEntity_Inl:
  assumes "queryOrderEntity c pk idx limit cursor sk so de = Inl e"
  shows "(truthy sk \<and> parseComparisonFilter c so = Inl e) \<or>
         (\<exists>cur. cursor = Some cur \<and> cur \<noteq> [] \<and>
            getStartKey c cur (Some (idx @ ''-'' @ sortKeyName sk @ ''-all'')) = Inl e)"
  using assms
  unfolding formattedIndex_sortKeyName queryOrderEntity_def Let_def
  by (auto split: sum.splits option.splits if_splits)

lemma queryOrderEntity_no_cursor:
  assumes "(if truthy sk then parseComparisonFilter c so else Inr None) = Inr cm"
    and "cursor = None \<or> cursor = Some []"
  shows "\<exists>opts. queryOrderEntity c pk idx limit cursor sk so de = Inr (Query pk opts) \<and>
           q_index opts = idx @ ''-'' @ sortKeyName sk @ ''-all'' \<and> q_startKey opts = None"
  using assms
  unfolding formattedIndex_sortKeyName queryOrderEntity_def Let_def
  by (auto split: sum.splits option.splits if_splits)

lemma queryOrderEntity_cursor:
  assumes "(if truthy sk then parseComparisonFilter c so else Inr None) = Inr cm"
    and "cursor = Some cur" "cur \<noteq> []"
    and "getStartKey c cur (Some (idx @ ''-'' @ sortKeyName sk @ ''-all'')) = Inr k"
  shows "\<exists>opts. queryOrderEntity c pk idx limit cursor sk so de = Inr (Query pk opts) \<and>
           q_index opts = idx @ ''-'' @ sortKeyName sk @ ''-all'' \<and> q_startKey opts = Some k"
  using assms
  unfolding formattedIndex_sortKeyName queryOrderEntity_def Let_def
  by (auto split: sum.splits option.splits if_splits)

text \<open>
  Claim C1. For every template of the catalog and every filter set (an object, so its keys
  are distinct): when the requested dimension set, the filter keys minus \<open>sortKey\<close>,
  \<open>sort\<close> and \<open>desc\<close>, is exactly the template's set, the template matches and
  \<open>getOrders\<close> queries the store on the template's index (the index name followed by the
  resolved sort key) with the partition key that joins the filter values in the template's
  field order: every store call it returns is that query, it issues the query whenever the
  comparison parses (or no sort key is given) and the cursor, if any, is accepted, and it
  can fail only with the error of the comparison parser or of the cursor check. When the
  requested dimension set is a strict subset or a strict superset of the template's set,
  the template does not match, and whatever range query \<open>getOrders\<close> then issues is not
  on that template's index.
\<close>

theorem getOrders_routes_exact_template:
  assumes t: "(dims, idx) \<in> set catalog" and d: "distinct (map fst qf)"
  shows "(requestedDimensions qf = set dims \<longrightarrow>
            areParamsRequested dims (getRequestedParams qf) \<and>
            (\<forall>call. getOrders c limit qf cursor = Inr call \<longrightarrow>
               (\<exists>opts. call = Query (partitionKeyOf dims qf) opts \<and>
                  q_index opts = idx @ ''-'' @ sortKeyName (lookup qf ''sortKey'') @ ''-all'')) \<and>
            (\<forall>e. getOrders c limit qf cursor = Inl e \<longrightarrow>
               (truthy (lookup qf ''sortKey'') \<and>
                parseComparisonFilter c (lookup qf ''sort'') = Inl e) \<or>
               (\<exists>cur. cursor = Some cur \<and> cur \<noteq> [] \<and>
                  getStartKey c cur
                    (Some (idx @ ''-'' @ sortKeyName (lookup qf ''sortKey'') @ ''-all'')) = Inl e)) \<and>
            (\<forall>cm. (if truthy (lookup qf ''sortKey'')
                   then parseComparisonFilter c (lookup qf ''sort'') else Inr None) = Inr cm \<longrightarrow>
               (cursor = None \<or> cursor = Some [] \<longrightarrow>
                  (\<exists>opts. getOrders c limit qf cursor = Inr (Query (partitionKeyOf dims qf) opts) \<and>
                     q_index opts = idx @ ''-'' @ sortKeyName (lookup qf ''sortKey'') @ ''-all'' \<and>
                     q_startKey opts = None)) \<and>
               (\<forall>cur k. cursor = Some cur \<and> cur \<noteq> [] \<and>
                    getStartKey c cur
                      (Some (idx @ ''-'' @ sortKeyName (lookup qf ''sortKey'') @ ''-all'')) = Inr k \<longrightarrow>
                  (\<exists>opts. getOrders c limit qf cursor = Inr (Query (partitionKeyOf dims qf) opts) \<and>
                     q_index opts = idx @ ''-'' @ sortKeyName (lookup qf ''sortKey'') @ ''-all'' \<and>
                     q_startKey opts = Some k)))) \<and>
         (requestedDimensions qf \<subset> set dims \<or> set dims \<subset> requestedDimensions qf \<longrightarrow>
            \<not> areParamsRequested dims (getRequestedParams qf) \<and>
            (\<forall>pk opts. getOrders c limit qf cursor = Inr (Query pk opts) \<longrightarrow>
               q_index opts \<noteq> idx @ ''-'' @ sortKeyName (lookup qf ''sortKey'') @ ''-all''))"
proof (intro conjI impI allI)
  assume e: "requestedDimensions qf = set dims"
  then have e': "set (getRequestedParams qf) = set dims"
    by (simp add: getRequestedParams_set)
  then show "areParamsRequested dims (getRequestedParams qf)"
    using areParamsRequested_exact[OF distinct_getRequestedParams[OF d] catalog_distinct[OF t]]
    by simp
  note g = getOrders_exact[OF t d e', of c limit cursor]
  {
    fix call
    assume "getOrders c limit qf cursor = Inr call"
    then have q: "queryOrderEntity c (partitionKeyOf dims qf) idx limit cursor
             (lookup qf ''sortKey'') (lookup qf ''sort'') (lookup qf ''desc'') = Inr call"
      unfolding g .
    from queryOrderEntity_Inr[OF q] obtain opts where o: "call = Query (partitionKeyOf dims qf) opts"
      by (elim exE conjE)
    from queryOrderEntity_Query(2)[OF q[unfolded o]] o
    show "\<exists>opts. call = Query (partitionKeyOf dims qf) opts \<and>
                  q_index opts = idx @ ''-'' @ sortKeyName (lookup qf ''sortKey'') @ ''-all''"
      by (intro exI conjI)
  next
    fix e
    assume "getOrders c limit qf cursor = Inl e"
    then have "queryOrderEntity c (partitionKeyOf dims qf) idx limit cursor
             (lookup qf ''sortKey'') (lookup qf ''sort'') (lookup qf ''desc'') = Inl e"
      unfolding g .
    then show "(truthy (lookup qf ''sortKey'') \<and>
                parseComparisonFilter c (lookup qf ''sort'') = Inl e) \<or>
               (\<exists>cur. cursor = Some cur \<and> cur \<noteq> [] \<and>
                  getStartKey c cur
                    (Some (idx @ ''-'' @ sortKeyName (lookup qf ''sortKey'') @ ''-all'')) = Inl e)"
      by (rule queryOrderEntity_Inl)
  next
    fix cm
    assume p: "(if truthy (lookup qf ''sortKey'')
                 then parseComparisonFilter c (lookup qf ''sort'') else Inr None) = Inr cm"
    {
      assume "cursor = None \<or> cursor = Some []"
      from queryOrderEntity_no_cursor[OF p this]
      show "\<exists>opts. getOrders c limit qf cursor = Inr (Query (partitionKeyOf dims qf) opts) \<and>
                     q_index opts = idx @ ''-'' @ sortKeyName (lookup qf ''sortKey'') @ ''-all'' \<and>
                     q_startKey opts = None"
        unfolding g .
    next
      fix cur k
      assume a: "cursor = Some cur \<and> cur \<noteq> [] \<and>
                    getStartKey c cur
                      (Some (idx @ ''-'' @ sortKeyName (lookup qf ''sortKey'') @ ''-all'')) = Inr k"
      from queryOrderEntity_cursor[OF p a[THEN conjunct1] a[THEN conjunct2, THEN conjunct1]
          a[THEN conjunct2, THEN conjunct2]]
      show "\<exists>opts. getOrders c limit qf cursor = Inr (Query (partitionKeyOf dims qf) opts) \<and>
                     q_index opts = idx @ ''-'' @ sortKeyName (lookup qf ''sortKey'') @ ''-all'' \<and>
                     q_startKey opts = Some k"
        unfolding g .
    }
  }
next
  assume "requestedDimensions qf \<subset> set dims \<or> set dims \<subset> requestedDimensions qf"
  then have s: "set (getRequestedParams qf) \<subset> set dims \<or> set dims \<subset> set (getRequestedParams qf)"
    by (simp add: getRequestedParams_set)
  show n: "\<not> areParamsRequested dims (getRequestedParams qf)"
    by (rule areParamsRequested_strict[OF catalog_distinct[OF t] s])
  fix pk opts
  assume "getOrders c limit qf cursor = Inr (Query pk opts)"
  then show "q_index opts \<noteq> idx @ ''-'' @ sortKeyName (lookup qf ''sortKey'') @ ''-all''"
    by (rule getOrders_other_index[OF t n])
qed

lemma psubset_witness: "A \<subseteq> B \<Longrightarrow> x \<in> B \<Longrightarrow> x \<notin> A \<Longrightarrow> A \<subset> B"
  by blast

theorem getOrders_routes_exact_template_witness:
  "(\<exists>opts. getOrders exampleCollaborators (Some 10)
              (exampleFilters @ [(''sortKey'', Str ''createdAt''), (''sort'', Str ''gt(5)''),
                                 (''desc'', Bool False)]) None =
              Inr (Query (Str ''0xofferer_open'') opts) \<and>
            q_index opts = ''offerer_orderStatus-createdAt-all'' \<and> q_startKey opts = None) \<and>
   (\<exists>opts. getOrders exampleCollaborators (Some 10)
              [(''offerer'', Str ''0xofferer''), (''desc'', Bool True)]
              (Some (encode exampleCollaborators exampleKeyText)) =
              Inr (Query (Str ''0xofferer'') opts) \<and>
            q_index opts = ''offerer-createdAt-all'' \<and> q_startKey opts = Some exampleKey) \<and>
   \<not> areParamsRequested [''offerer'', ''orderStatus'']
       (getRequestedParams [(''offerer'', Str ''0xofferer''), (''sortKey'', Str ''createdAt''),
                            (''sort'', Str ''gt(5)'')]) \<and>
   (case getOrders exampleCollaborators (Some 10)
           [(''offerer'', Str ''0xofferer''), (''sortKey'', Str ''createdAt''),
            (''sort'', Str ''gt(5)'')] None of
      Inr (Query pk opts) \<Rightarrow>
        q_index opts = ''offerer-createdAt-all'' \<and>
        q_index opts \<noteq> ''offerer_orderStatus-createdAt-all''
    | _ \<Rightarrow> False)"
proof -
  let ?c = exampleCollaborators
  let ?f1 = "exampleFilters @ [(''sortKey'', Str ''createdAt''), (''sort'', Str ''gt(5)''),
                                 (''desc'', Bool False)]"
  let ?f2 = "[(''offerer'', Str ''0xofferer''), (''desc'', Bool True)]"
  let ?f3 = "[(''offerer'', Str ''0xofferer''), (''sortKey'', Str ''createdAt''),
              (''sort'', Str ''gt(5)'')]"
  have t1: "([''offerer'', ''orderStatus''], ''offerer_orderStatus'') \<in> set catalog"
    by (simp add: catalog_def)
  have t2: "([''offerer''], ''offerer'') \<in> set catalog"
    by (simp add: catalog_def)
  have d1: "distinct (map fst ?f1)"
    by (simp add: exampleFilters_def)
  have d2: "distinct (map fst ?f2)"
    by simp
  have d3: "distinct (map fst ?f3)"
    by simp
  have r1: "requestedDimensions ?f1 = set [''offerer'', ''orderStatus'']"
    by (simp add: requestedDimensions_def exampleFilters_def insert_Diff_if)
  have r2: "requestedDimensions ?f2 = set [''offerer'']"
    by (simp add: requestedDimensions_def insert_Diff_if)
  have r3: "requestedDimensions ?f3 = set [''offerer'']"
    by (simp add: requestedDimensions_def insert_Diff_if)
  have s3: "requestedDimensions ?f3 \<subset> set [''offerer'', ''orderStatus'']"
    unfolding r3 by (rule psubset_witness[where x = "''orderStatus''"]) simp_all
  have p1: "(if truthy (lookup ?f1 ''sortKey'')
             then parseComparisonFilter ?c (lookup ?f1 ''sort'') else Inr None) =
            Inr (Some \<lparr> operator = GT, values_of = [5] \<rparr>)"
    by (simp add: lookup_def exampleFilters_def exampleCollaborators_def)
  have p2: "(if truthy (lookup ?f2 ''sortKey'')
             then parseComparisonFilter ?c (lookup ?f2 ''sort'') else Inr None) = Inr None"
    by (simp add: lookup_def)
  have k1: "sortKeyName (lookup ?f1 ''sortKey'') = ''createdAt''"
    by (simp add: lookup_def exampleFilters_def sortKeyName_def)
  have k2: "sortKeyName (lookup ?f2 ''sortKey'') = ''createdAt''"
    by (simp add: lookup_def sortKeyName_def)
  have k3: "sortKeyName (lookup ?f3 ''sortKey'') = ''createdAt''"
    by (simp add: lookup_def sortKeyName_def)
  have pk1: "partitionKeyOf [''offerer'', ''orderStatus''] ?f1 = Str ''0xofferer_open''"
    by (simp add: partitionKeyOf_def lookup_def exampleFilters_def)
  have pk2: "partitionKeyOf [''offerer''] ?f2 = Str ''0xofferer''"
    by (simp add: partitionKeyOf_def lookup_def)
  have g2: "getStartKey ?c (encode ?c exampleKeyText) (Some ''offerer-createdAt-all'') =
              Inr exampleKey"
    by (simp add: getStartKey_def parseCursor_def exampleCollaborators_def exampleKey_def
          validKeys_def TABLE_KEY_values_def TK_ORDER_HASH_def TK_OFFERER_def TK_FILLER_def
          TK_ORDER_STATUS_def TK_CHAIN_ID_def TK_CREATED_AT_def)
  have n2: "encode ?c exampleKeyText \<noteq> []"
    by (simp add: exampleCollaborators_def exampleKeyText_def)
  note th1 = getOrders_routes_exact_template[OF t1 d1, where c = ?c and limit = "Some 10"
      and cursor = None, THEN conjunct1, rule_format, OF r1]
  from th1[THEN conjunct2, THEN conjunct2, THEN conjunct2, rule_format, OF p1,
      THEN conjunct1, rule_format]
  have a: "\<exists>opts. getOrders ?c (Some 10) ?f1 None = Inr (Query (Str ''0xofferer_open'') opts) \<and>
            q_index opts = ''offerer_orderStatus-createdAt-all'' \<and> q_startKey opts = None"
    unfolding k1 pk1 by simp
  note th2 = getOrders_routes_exact_template[OF t2 d2, where c = ?c and limit = "Some 10"
      and cursor = "Some (encode ?c exampleKeyText)", THEN conjunct1, rule_format, OF r2]
  from th2[THEN conjunct2, THEN conjunct2, THEN conjunct2, rule_format, OF p2,
      THEN conjunct2, rule_format, of "encode ?c exampleKeyText" exampleKey]
  have b: "\<exists>opts. getOrders ?c (Some 10) ?f2 (Some (encode ?c exampleKeyText)) =
              Inr (Query (Str ''0xofferer'') opts) \<and>
            q_index opts = ''offerer-createdAt-all'' \<and> q_startKey opts = Some exampleKey"
    unfolding k2 pk2 using g2 n2 by simp
  note th3 = getOrders_routes_exact_template[OF t1 d3, where c = ?c and limit = "Some 10"
      and cursor = None, THEN conjunct2, rule_format, OF disjI1, OF s3]
  from th3 have c: "\<not> areParamsRequested [''offerer'', ''orderStatus''] (getRequestedParams ?f3)"
    by (rule conjunct1)
  have e3: "\<exists>opts. getOrders ?c (Some 10) ?f3 None = Inr (Query (Str ''0xofferer'') opts) \<and>
              q_index opts = ''offerer-createdAt-all''"
    by (simp add: query_defs exampleCollaborators_def comparisonOperand_def)
  then obtain o3 where
    e3': "getOrders ?c (Some 10) ?f3 None = Inr (Query (Str ''0xofferer'') o3)" and
    i3: "q_index o3 = ''offerer-createdAt-all''"
    by (elim exE conjE)
  from th3[THEN conjunct2, rule_format, OF e3'] have
    "q_index o3 \<noteq> ''offerer_orderStatus-createdAt-all''"
    unfolding k3 by simp
  with e3' i3 have dd: "(case getOrders ?c (Some 10) ?f3 None of
      Inr (Query pk opts) \<Rightarrow>
        q_index opts = ''offerer-createdAt-all'' \<and>
        q_index opts \<noteq> ''offerer_orderStatus-createdAt-all''
    | _ \<Rightarrow> False)"
    by simp
  from a b c dd show ?thesis
    by (intro conjI)
qed

section \<open>Unsupported dimension combinations\<close>

lemma no_template_matches:
  assumes d: "distinct (map fst qf)"
    and u: "set (getRequestedParams qf) \<notin> set supportedDimensionSets"
  shows "list_all (\<lambda>t. \<not> areParamsRequested (fst t) (getRequestedParams qf)) catalog"
proof -
  have "\<not> areParamsRequested (fst t) (getRequestedParams qf)" if t: "t \<in> set catalog" for t
  proof -
    from t have "(fst t, snd t) \<in> set catalog"
      by simp
    then have dd: "distinct (fst t)"
      by (rule catalog_distinct)
    from t have "set (fst t) \<in> set supportedDimensionSets"
      by (simp add: supportedDimensionSets_def)
    with u have "set (getRequestedParams qf) \<noteq> set (fst t)"
      by metis
    then show ?thesis
      using areParamsRequested_exact[OF distinct_getRequestedParams[OF d] dd] by simp
  qed
  then show ?thesis
    by (simp add: list_all_iff)
qed

lemma supported_with_orderHash:
  assumes "A \<in> set supportedDimensionSets" and "''orderHash'' \<in> A"
  shows "A = {''orderHash''}"
  using assms unfolding supportedDimensionSets_def catalog_def
  by (simp only: list.map list.set set_append insert_iff empty_iff fst_conv Un_iff append.simps, elim disjE; simp)

lemma supported_without_sellToken:
  assumes "A \<in> set supportedDimensionSets"
  shows "''sellToken'' \<notin> A"
  using assms unfolding supportedDimensionSets_def catalog_def
  by (simp only: list.map list.set set_append insert_iff empty_iff fst_conv Un_iff append.simps,
      elim disjE; simp)

text \<open>
  Claim C2, as stated, fails: the requested dimensions \<open>{offerer, orderHash}\<close> are not a
  supported set, yet \<open>getOrders\<close> does not fail; it looks the order up by its hash.
\<close>

theorem unsupported_with_orderHash_counterexample:
  "set (getRequestedParams [(''offerer'', Str ''0xofferer''), (''orderHash'', Str ''0xc57af022'')])
     \<notin> set supportedDimensionSets \<and>
   getOrders exampleCollaborators (Some 10)
     [(''offerer'', Str ''0xofferer''), (''orderHash'', Str ''0xc57af022'')] None =
     Inr (Get (Str ''0xc57af022''))"
proof
  have r: "getRequestedParams [(''offerer'', Str ''0xofferer''), (''orderHash'', Str ''0xc57af022'')]
             = [''offerer'', ''orderHash'']"
    by (simp add: getRequestedParams_def GQP_SORT_KEY_def GQP_SORT_def GQP_DESC_def)
  show "set (getRequestedParams [(''offerer'', Str ''0xofferer''), (''orderHash'', Str ''0xc57af022'')])
     \<notin> set supportedDimensionSets"
  proof
    assume "set (getRequestedParams [(''offerer'', Str ''0xofferer''), (''orderHash'', Str ''0xc57af022'')])
     \<in> set supportedDimensionSets"
    then have "set [''offerer'', ''orderHash''] = {''orderHash''}"
      unfolding r by (rule supported_with_orderHash) simp
    then have "''offerer'' \<in> {''orderHash''}"
      by (metis list.set_intros(1))
    then show False
      by simp
  qed
  show "getOrders exampleCollaborators (Some 10)
     [(''offerer'', Str ''0xofferer''), (''orderHash'', Str ''0xc57af022'')] None =
     Inr (Get (Str ''0xc57af022''))"
    by (simp add: query_defs)
qed


text \<open>
  Claim C2, amended. For every filter set whose requested dimensions are not a supported
  set: when they name neither \<open>orderHash\<close> nor \<open>orderHashes\<close>, \<open>getOrders\<close> fails with the
  invalid-query error, whose message lists the parameters to query with, whatever the
  filter values are; when they name \<open>orderHash\<close> the order is looked up by that hash, and
  otherwise, naming \<open>orderHashes\<close>, the orders are fetched in a batch.
\<close>

theorem getOrders_unsupported_dimensions:
  assumes d: "distinct (map fst qf)"
    and u: "set (getRequestedParams qf) \<notin> set supportedDimensionSets"
  shows "getOrders c limit qf cursor =
           (if ''orderHash'' \<in> set (getRequestedParams qf) then Inr (Get (lookup qf ''orderHash''))
            else if ''orderHashes'' \<in> set (getRequestedParams qf)
            then (case lookup qf ''orderHashes'' of
                    Arr orderHashes \<Rightarrow> Inr (BatchGet orderHashes)
                  | _ \<Rightarrow> Inl TypeError)
            else Inl (Error ''Invalid query, must query with one of the following params: [orderHash, orderHashes, chainId, orderStatus, swapper, filler]''))"
  using no_template_matches[OF d u]
  unfolding catalog_def
  by (simp add: getOrders_def Let_def InvalidQuery_def
      GQP_FILLER_def GQP_OFFERER_def GQP_ORDER_STATUS_def GQP_CHAIN_ID_def
      GQP_ORDER_HASH_def GQP_ORDER_HASHES_def)

theorem getOrders_unsupported_dimensions_witness:
  "getOrders exampleCollaborators (Some 10)
     [(''offerer'', Str ''0xofferer''), (''sellToken'', Str ''0x6B3595068778DD59''),
      (''orderStatus'', Str ''open'')] None = Inl InvalidQuery \<and>
   getOrders exampleCollaborators (Some 10)
     [(''sellToken'', Str ''0x6B3595068778DD59''), (''orderHash'', Str ''0xc57af022'')] None =
     Inr (Get (Str ''0xc57af022''))"
proof
  let ?f1 = "[(''offerer'', Str ''0xofferer''), (''sellToken'', Str ''0x6B3595068778DD59''),
      (''orderStatus'', Str ''open'')]"
  let ?f2 = "[(''sellToken'', Str ''0x6B3595068778DD59''), (''orderHash'', Str ''0xc57af022'')]"
  have r1: "getRequestedParams ?f1 = [''offerer'', ''sellToken'', ''orderStatus'']"
    by (simp add: getRequestedParams_def GQP_SORT_KEY_def GQP_SORT_def GQP_DESC_def)
  have r2: "getRequestedParams ?f2 = [''sellToken'', ''orderHash'']"
    by (simp add: getRequestedParams_def GQP_SORT_KEY_def GQP_SORT_def GQP_DESC_def)
  have u1: "set (getRequestedParams ?f1) \<notin> set supportedDimensionSets"
    using supported_without_sellToken[of "set (getRequestedParams ?f1)"]
    by (auto simp only: r1 list.set insert_iff)
  have u2: "set (getRequestedParams ?f2) \<notin> set supportedDimensionSets"
    using supported_without_sellToken[of "set (getRequestedParams ?f2)"]
    by (auto simp only: r2 list.set insert_iff)
  have d1: "distinct (map fst ?f1)"
    by simp
  have d2: "distinct (map fst ?f2)"
    by simp
  show "getOrders exampleCollaborators (Some 10) ?f1 None = Inl InvalidQuery"
    using getOrders_unsupported_dimensions[OF d1 u1, of exampleCollaborators "Some 10" None]
    by (simp only: r1) (simp add: InvalidQuery_def)
  show "getOrders exampleCollaborators (Some 10) ?f2 None = Inr (Get (Str ''0xc57af022''))"
    using getOrders_unsupported_dimensions[OF d2 u2, of exampleCollaborators "Some 10" None]
    by (simp only: r2) (simp add: lookup_def)
qed

section \<open>Cursors are scoped to their index\<close>

lemma split_append: "c \<notin> set a \<Longrightarrow> split c (a @ c # b) = a # split c b"
  by (induction a) auto

lemmas TABLE_KEY_defs = TABLE_KEY_values_def TK_ORDER_HASH_def TK_OFFERER_def TK_FILLER_def
    TK_ORDER_STATUS_def TK_CHAIN_ID_def TK_CREATED_AT_def

lemma TABLE_KEY_no_dash: "s \<in> set TABLE_KEY_values \<Longrightarrow> CHR ''-'' \<notin> set s"
  unfolding TABLE_KEY_defs
  by (simp only: list.set insert_iff empty_iff, elim disjE; simp)

lemma TABLE_KEY_nonempty: "s \<in> set TABLE_KEY_values \<Longrightarrow> s \<noteq> []"
  unfolding TABLE_KEY_defs
  by (simp only: list.set insert_iff empty_iff, elim disjE; simp)

lemma all_not_TABLE_KEY: "''all'' \<notin> set TABLE_KEY_values"
  unfolding TABLE_KEY_defs
  by simp

lemma catalog_index_TABLE_KEY: "(dims, idx) \<in> set catalog \<Longrightarrow> idx \<in> set TABLE_KEY_values"
  unfolding TABLE_KEY_defs
  by (drule catalog_cases) (elim disjE conjE; simp)

lemma catalog_index_not_orderHash: "(dims, idx) \<in> set catalog \<Longrightarrow> idx \<noteq> ''orderHash''"
  by (drule catalog_cases) (elim disjE conjE; simp)

lemma validKeys_sortField:
  assumes a: "a \<in> set TABLE_KEY_values" and s: "s \<in> set TABLE_KEY_values"
  shows "validKeys (Some (a @ ''-'' @ s @ ''-all'')) = [''orderHash'', a, s]"
proof -
  have "split CHR ''-'' (a @ ''-'' @ s @ ''-all'') = [a, s, ''all'']"
    using TABLE_KEY_no_dash[OF a] TABLE_KEY_no_dash[OF s] by (simp add: split_append)
  then show ?thesis
    using a s TABLE_KEY_nonempty[OF a] TABLE_KEY_nonempty[OF s] all_not_TABLE_KEY
    by (simp add: validKeys_def TK_ORDER_HASH_def)
qed

lemma isSortField_TABLE_KEY: "isSortField s \<Longrightarrow> s \<in> set TABLE_KEY_values"
  by (simp add: isSortField_def)

lemma isSortField_not_orderHash: "isSortField s \<Longrightarrow> s \<noteq> ''orderHash''"
  by (simp add: isSortField_def)

lemma isSortField_not_index:
  assumes "isSortField s" and t: "(dims, idx) \<in> set catalog"
  shows "s \<noteq> idx"
proof
  assume "s = idx"
  moreover from t have "idx \<in> set (map snd catalog)"
    by (metis image_eqI list.set_map snd_conv)
  ultimately show False
    using assms(1) by (simp add: isSortField_def)
qed

lemma validKeys_index:
  assumes t: "(dims, idx) \<in> set catalog" and s: "isSortField (sortKeyName sortKey)"
  shows "validKeys (Some (formattedIndex idx sortKey)) = [''orderHash'', idx, sortKeyName sortKey]"
  unfolding formattedIndex_sortKeyName
  by (rule validKeys_sortField[OF catalog_index_TABLE_KEY[OF t] isSortField_TABLE_KEY[OF s]])

lemma validKeys_index_distinct:
  assumes t: "(dims, idx) \<in> set catalog" and s: "isSortField (sortKeyName sortKey)"
  shows "distinct (validKeys (Some (formattedIndex idx sortKey)))"
proof -
  have "''orderHash'' \<noteq> idx"
    using catalog_index_not_orderHash[OF t] by metis
  moreover have "''orderHash'' \<noteq> sortKeyName sortKey"
    using isSortField_not_orderHash[OF s] by metis
  moreover have "idx \<noteq> sortKeyName sortKey"
    using isSortField_not_index[OF s t] by metis
  ultimately show ?thesis
    unfolding validKeys_index[OF t s] by simp
qed

lemma getStartKey_accepts:
  assumes p: "parseCursor c cursor = Some (Obj kvs)"
    and d: "distinct (map fst kvs)" and dv: "distinct (validKeys index)"
    and e: "set (map fst kvs) = set (validKeys index)"
  shows "getStartKey c cursor index = Inr (Obj kvs)"
proof -
  have "length (map fst kvs) = length (validKeys index)"
    using d dv e by (metis distinct_card)
  then have "length kvs = length (validKeys index)"
    by simp
  moreover have "list_all (\<lambda>key. key \<in> set (validKeys index)) (map fst kvs)"
    using e by (simp add: list_all_iff)
  ultimately show ?thesis
    using p by (simp add: getStartKey_def)
qed

lemma getStartKey_unparsable:
  "parseCursor c cursor = None \<Longrightarrow> getStartKey c cursor index = Inl InvalidCursor"
  by (simp add: getStartKey_def)

lemma getStartKey_null:
  "parseCursor c cursor = Some Null \<Longrightarrow> getStartKey c cursor index = Inl TypeError"
  by (simp add: getStartKey_def)

lemma getStartKey_foreign_key:
  assumes p: "parseCursor c cursor = Some v" and k: "Object_keys v = Some ks"
    and x: "x \<in> set ks" "x \<notin> set (validKeys index)"
  shows "getStartKey c cursor index = Inl InvalidCursor"
proof -
  have "\<not> list_all (\<lambda>key. key \<in> set (validKeys index)) ks"
    using x by (auto simp: list_all_iff)
  then show ?thesis
    using p k by (simp add: getStartKey_def)
qed

lemma getStartKey_field_mismatch:
  assumes p: "parseCursor c cursor = Some v" and k: "Object_keys v = Some ks"
    and d: "distinct ks" and ne: "set ks \<noteq> set (validKeys index)"
  shows "getStartKey c cursor index = Inl InvalidCursor"
proof (cases "set ks \<subseteq> set (validKeys index)")
  case True
  with ne have "set ks \<subset> set (validKeys index)"
    by blast
  then have "card (set ks) < card (set (validKeys index))"
    by (simp add: psubset_card_mono)
  moreover have "card (set (validKeys index)) \<le> length (validKeys index)"
    by (rule card_length)
  moreover have "card (set ks) = length ks"
    using d by (simp add: distinct_card)
  ultimately have "length ks \<noteq> length (validKeys index)"
    by simp
  then show ?thesis
    using p k by (simp add: getStartKey_def)
next
  case False
  then obtain x where "x \<in> set ks" "x \<notin> set (validKeys index)"
    by blast
  then show ?thesis
    by (rule getStartKey_foreign_key[OF p k])
qed

lemma getStartKey_other_index:
  assumes tA: "(dimsA, a) \<in> set catalog" and tB: "(dimsB, b) \<in> set catalog"
    and sA: "isSortField (sortKeyName ska)" and sB: "isSortField (sortKeyName skb)"
    and ne: "formattedIndex a ska \<noteq> formattedIndex b skb"
    and k: "set (map fst kvs) = expectedFields a ska"
    and p: "parseCursor c cursor = Some (Obj kvs)"
  shows "getStartKey c cursor (Some (formattedIndex b skb)) = Inl InvalidCursor"
proof -
  have vB: "validKeys (Some (formattedIndex b skb)) = [''orderHash'', b, sortKeyName skb]"
    by (rule validKeys_index[OF tB sB])
  have ok: "Object_keys (Obj kvs) = Some (map fst kvs)"
    by simp
  show ?thesis
  proof (cases "a = b")
    case False
    have "a \<in> set (map fst kvs)"
      unfolding k by (simp add: expectedFields_def)
    moreover have "a \<notin> set (validKeys (Some (formattedIndex b skb)))"
      using False catalog_index_not_orderHash[OF tA] isSortField_not_index[OF sB tA]
      unfolding vB by (metis empty_iff empty_set set_ConsD)
    ultimately show ?thesis
      by (rule getStartKey_foreign_key[OF p ok])
  next
    case True
    with ne have n: "sortKeyName ska \<noteq> sortKeyName skb"
      unfolding formattedIndex_sortKeyName by metis
    have "sortKeyName ska \<in> set (map fst kvs)"
      unfolding k by (simp add: expectedFields_def)
    moreover have "sortKeyName ska \<notin> set (validKeys (Some (formattedIndex b skb)))"
      using n isSortField_not_orderHash[OF sA] isSortField_not_index[OF sA tB]
      unfolding vB by (metis empty_iff empty_set set_ConsD)
    ultimately show ?thesis
      by (rule getStartKey_foreign_key[OF p ok])
  qed
qed

lemma createdAt_isSortField: "isSortField ''createdAt''"
  by (simp add: isSortField_def TABLE_KEY_defs catalog_def)

lemma cursor_other_index_example:
  "getStartKey exampleCollaborators (encode exampleCollaborators exampleKeyText)
     (Some ''filler-createdAt-all'') = Inl InvalidCursor"
proof -
  have tA: "([''offerer''], ''offerer'') \<in> set catalog"
    by (simp add: catalog_def)
  have tB: "([''filler''], ''filler'') \<in> set catalog"
    by (simp add: catalog_def)
  have s: "isSortField (sortKeyName Undefined)"
    by (simp add: sortKeyName_def createdAt_isSortField)
  have ne: "formattedIndex ''offerer'' Undefined \<noteq> formattedIndex ''filler'' Undefined"
    by (simp add: formattedIndex_def)
  have k: "set (map fst [(''orderHash'', Str ''0xc57af022''), (''offerer'', Str ''0xofferer''),
                          (''createdAt'', Num 1700000000)]) = expectedFields ''offerer'' Undefined"
    by (simp add: expectedFields_def sortKeyName_def)
  have p: "parseCursor exampleCollaborators (encode exampleCollaborators exampleKeyText) =
             Some (Obj [(''orderHash'', Str ''0xc57af022''), (''offerer'', Str ''0xofferer''),
                        (''createdAt'', Num 1700000000)])"
    by (simp add: parseCursor_def exampleCollaborators_def exampleKey_def)
  have f: "formattedIndex ''filler'' Undefined = ''filler-createdAt-all''"
    by (simp add: formattedIndex_def TK_CREATED_AT_def)
  from getStartKey_other_index[OF tA tB s s ne k p] show ?thesis
    unfolding f .
qed


text \<open>
  Claim C9. For every index of the catalog (a template's index with a sort field) and every
  continuation key, an object whose fields are exactly the primary key, the index's
  partition attribute and its sort attribute: the cursor returned with a truncated result
  is the encoded, serialized key, and decoding that cursor for the same index gives the
  key back. The encoding and the JSON functions are outside the sources; they are assumed
  to invert each other, the encoding on every text and the JSON functions on this key.
\<close>

theorem cursor_roundtrip:
  assumes t: "(dims, idx) \<in> set catalog" and s: "isSortField (sortKeyName sortKey)"
    and d: "distinct (map fst kvs)" and k: "set (map fst kvs) = expectedFields idx sortKey"
    and enc: "\<forall>text. decode c (encode c text) = Some text"
    and json: "JSON_parse c (JSON_stringify c (Obj kvs)) = Some (Obj kvs)"
  shows "cursor_of (queryResult c \<lparr> Items = items, LastEvaluatedKey = Some (Obj kvs) \<rparr>) =
           Some (encode c (JSON_stringify c (Obj kvs))) \<and>
         getStartKey c (encode c (JSON_stringify c (Obj kvs))) (Some (formattedIndex idx sortKey)) =
           Inr (Obj kvs)"
proof
  show "cursor_of (queryResult c \<lparr> Items = items, LastEvaluatedKey = Some (Obj kvs) \<rparr>) =
           Some (encode c (JSON_stringify c (Obj kvs)))"
    by (simp add: queryResult_def)
  have p: "parseCursor c (encode c (JSON_stringify c (Obj kvs))) = Some (Obj kvs)"
    using enc json by (simp add: parseCursor_def)
  have e: "set (map fst kvs) = set (validKeys (Some (formattedIndex idx sortKey)))"
    unfolding k validKeys_index[OF t s] by (simp add: expectedFields_def)
  show "getStartKey c (encode c (JSON_stringify c (Obj kvs))) (Some (formattedIndex idx sortKey)) =
           Inr (Obj kvs)"
    by (rule getStartKey_accepts[OF p d validKeys_index_distinct[OF t s] e])
qed

theorem cursor_roundtrip_witness:
  "getStartKey exampleCollaborators (encode exampleCollaborators exampleKeyText)
     (Some ''offerer-createdAt-all'') = Inr exampleKey \<and>
   cursor_of (queryResult exampleCollaborators \<lparr> Items = [], LastEvaluatedKey = Some exampleKey \<rparr>) =
     Some (encode exampleCollaborators exampleKeyText)"
proof -
  let ?kvs = "[(''orderHash'', Str ''0xc57af022''), (''offerer'', Str ''0xofferer''),
                     (''createdAt'', Num 1700000000)]"
  have t: "([''offerer''], ''offerer'') \<in> set catalog"
    by (simp add: catalog_def)
  have s: "isSortField (sortKeyName Undefined)"
    by (simp add: sortKeyName_def createdAt_isSortField)
  have d: "distinct (map fst ?kvs)"
    by simp
  have k: "set (map fst ?kvs) = expectedFields ''offerer'' Undefined"
    by (simp add: expectedFields_def sortKeyName_def)
  have enc: "\<forall>text. decode exampleCollaborators (encode exampleCollaborators text) = Some text"
    by (simp add: exampleCollaborators_def)
  have json: "JSON_parse exampleCollaborators (JSON_stringify exampleCollaborators (Obj ?kvs)) =
                Some (Obj ?kvs)"
    by (simp add: exampleCollaborators_def exampleKey_def)
  have st: "JSON_stringify exampleCollaborators (Obj ?kvs) = exampleKeyText"
    by (simp add: exampleCollaborators_def exampleKey_def)
  have f: "formattedIndex ''offerer'' Undefined = ''offerer-createdAt-all''"
    by (simp add: formattedIndex_def TK_CREATED_AT_def)
  from cursor_roundtrip[OF t s d k enc json, of "[]"] show ?thesis
    unfolding st f exampleKey_def by simp
qed

text \<open>
  Claim C3 fails on one cursor. A cursor of another index of the catalog is refused with
  the invalid-cursor error (\<open>getStartKey_other_index\<close>), so is a cursor that does not
  parse (\<open>getStartKey_unparsable\<close>) and one whose decoded value has keys that are not
  exactly the expected ones (\<open>getStartKey_field_mismatch\<close>). But a cursor whose decoded
  text is the JSON literal \<open>null\<close> parses, and \<open>Object.keys\<close> then throws a TypeError
  outside the \<open>try\<close> block: the failure is not the invalid-cursor error.
\<close>

theorem null_cursor_type_error:
  "getStartKey exampleCollaborators (encode exampleCollaborators ''null'')
     (Some ''offerer-createdAt-all'') = Inl TypeError \<and>
   getOrders exampleCollaborators (Some 10) [(''offerer'', Str ''0xofferer'')]
     (Some (encode exampleCollaborators ''null'')) = Inl TypeError"
proof
  have p: "parseCursor exampleCollaborators (encode exampleCollaborators ''null'') = Some Null"
    by (simp add: parseCursor_def exampleCollaborators_def exampleKeyText_def)
  show g: "getStartKey exampleCollaborators (encode exampleCollaborators ''null'')
     (Some ''offerer-createdAt-all'') = Inl TypeError"
    by (rule getStartKey_null[OF p])
  have "encode exampleCollaborators ''null'' \<noteq> []"
    by (simp add: exampleCollaborators_def)
  with g show "getOrders exampleCollaborators (Some 10) [(''offerer'', Str ''0xofferer'')]
     (Some (encode exampleCollaborators ''null'')) = Inl TypeError"
    by (simp add: query_defs)
qed

theorem null_cursor_type_error_witness:
  "getStartKey exampleCollaborators ''llun'' (Some ''offerer-createdAt-all'') \<noteq>
     Inl InvalidCursor \<and>
   getOrders exampleCollaborators (Some 10) [(''offerer'', Str ''0xofferer'')] (Some ''llun'') \<noteq>
     Inl InvalidCursor"
  using null_cursor_type_error
  by (simp add: exampleCollaborators_def InvalidCursor_def)

section \<open>Writes keep the composite attributes consistent\<close>

lemma statusUpdate_apply:
  assumes "k \<noteq> ''txHash''" "k \<noteq> ''settledAmounts''"
  shows "statusUpdate order h status txHash settled k =
     [''orderHash'' \<mapsto> Str h,
      ''orderStatus'' \<mapsto> Str status,
      ''offerer_orderStatus'' \<mapsto> Str (toStr (field order ''offerer'') @ ''_'' @ status),
      ''filler_orderStatus'' \<mapsto> Str (toStr (field order ''filler'') @ ''_'' @ status),
      ''filler_offerer_orderStatus'' \<mapsto>
         Str (toStr (field order ''filler'') @ ''_'' @ toStr (field order ''offerer'') @ ''_'' @ status),
      ''chainId_orderStatus'' \<mapsto> Str (toStr (field order ''chainId'') @ ''_'' @ status),
      ''chainId_orderStatus_filler'' \<mapsto>
         Str (toStr (field order ''chainId'') @ ''_'' @ status @ ''_'' @ toStr (field order ''filler''))] k"
  using assms by (simp add: statusUpdate_def Let_def split: option.splits)

lemma putItem_consistent: "compositesConsistent (putItem order now)"
  by (simp add: compositesConsistent_def putItem_def field_def)

lemma updated_item:
  fixes old :: item and h status :: string and txHash :: "string option"
    and settled :: "jsval list option"
  defines "new \<equiv> old ++ statusUpdate old h status txHash settled"
  shows "field new ''orderStatus'' = Str status"
    and "field new ''offerer'' = field old ''offerer''"
    and "field new ''filler'' = field old ''filler''"
    and "field new ''chainId'' = field old ''chainId''"
    and "new ''offerer_orderStatus'' = Some (Str (toStr (field old ''offerer'') @ ''_'' @ status))"
    and "new ''filler_orderStatus'' = Some (Str (toStr (field old ''filler'') @ ''_'' @ status))"
    and "new ''chainId_orderStatus'' = Some (Str (toStr (field old ''chainId'') @ ''_'' @ status))"
    and "new ''chainId_orderStatus_filler'' =
           Some (Str (toStr (field old ''chainId'') @ ''_'' @ status @ ''_'' @ toStr (field old ''filler'')))"
    and "new ''filler_offerer_orderStatus'' =
           Some (Str (toStr (field old ''filler'') @ ''_'' @ toStr (field old ''offerer'') @ ''_'' @ status))"
    and "new ''filler_offerer'' = old ''filler_offerer''"
    and "new ''chainId_filler'' = old ''chainId_filler''"
  unfolding new_def
  by (simp_all add: field_def map_add_def statusUpdate_apply)


lemma exampleOrderEntity_fields:
  "field exampleOrderEntity ''orderHash'' = Str ''0xc57af022''"
  "field exampleOrderEntity ''offerer'' = Str ''0xofferer''"
  "field exampleOrderEntity ''filler'' = Undefined"
  "field exampleOrderEntity ''orderStatus'' = Str ''open''"
  "field exampleOrderEntity ''chainId'' = Num 1"
  "field exampleOrderEntity ''nonce'' = Str ''0xnonce''"
  by (simp_all add: field_def exampleOrderEntity_def)

text \<open>
  Claim C4. The item \<open>putOrderAndUpdateNonceTransaction\<close> stores has each of its seven
  composites equal to the join of the stored values of the fields it names;
  \<open>deleteOrders\<close> leaves every item it keeps as it was. When
  \<open>updateOrderStatus\<close> finds the order it stores the new status, leaves offerer, filler
  and chain id as they were, recomputes the five composites that involve the status from
  those fields and the new status, and leaves the two others (\<open>filler_offerer\<close>,
  \<open>chainId_filler\<close>) as they were; so an item consistent before the update is consistent
  after it. When it does not find the order it fails and writes nothing.
\<close>

theorem composites_consistent_on_writes:
  "compositesConsistent (putItem order now) \<and>
   (\<forall>k it. orders_table (deleteOrders d hashes) k = Some it \<longrightarrow> orders_table d k = Some it) \<and>
   orders_table (putOrderAndUpdateNonceTransaction now d order) (field order ''orderHash'') =
     Some (putItem order now) \<and>
   (getByHash d h = None \<longrightarrow>
      updateOrderStatus d h status txHash settled =
        Inl (Error ''cannot find order by hash when updating order status'')) \<and>
   (getByHash d h = Some old \<longrightarrow>
      (\<exists>new. updateOrderStatus d h status txHash settled =
               Inr (d\<lparr> orders_table := (orders_table d)(Str h \<mapsto> new) \<rparr>) \<and>
         field new ''orderStatus'' = Str status \<and>
         field new ''offerer'' = field old ''offerer'' \<and>
         field new ''filler'' = field old ''filler'' \<and>
         field new ''chainId'' = field old ''chainId'' \<and>
         new ''offerer_orderStatus'' =
           Some (Str (toStr (field new ''offerer'') @ ''_'' @ toStr (field new ''orderStatus''))) \<and>
         new ''filler_orderStatus'' =
           Some (Str (toStr (field new ''filler'') @ ''_'' @ toStr (field new ''orderStatus''))) \<and>
         new ''chainId_orderStatus'' =
           Some (Str (toStr (field new ''chainId'') @ ''_'' @ toStr (field new ''orderStatus''))) \<and>
         new ''chainId_orderStatus_filler'' =
           Some (Str (toStr (field new ''chainId'') @ ''_'' @ toStr (field new ''orderStatus'')
                      @ ''_'' @ toStr (field new ''filler''))) \<and>
         new ''filler_offerer_orderStatus'' =
           Some (Str (toStr (field new ''filler'') @ ''_'' @ toStr (field new ''offerer'')
                      @ ''_'' @ toStr (field new ''orderStatus''))) \<and>
         new ''filler_offerer'' = old ''filler_offerer'' \<and>
         new ''chainId_filler'' = old ''chainId_filler'' \<and>
         (compositesConsistent old \<longrightarrow> compositesConsistent new)))"
proof (intro conjI impI allI)
  show "compositesConsistent (putItem order now)"
    by (rule putItem_consistent)
  show "orders_table (putOrderAndUpdateNonceTransaction now d order) (field order ''orderHash'') =
     Some (putItem order now)"
    by (simp add: putOrderAndUpdateNonceTransaction_def)
next
  fix k it
  assume "orders_table (deleteOrders d hashes) k = Some it"
  then show "orders_table d k = Some it"
    by (simp add: deleteOrders_def split: if_splits)
next
  assume "getByHash d h = None"
  then show "updateOrderStatus d h status txHash settled =
        Inl (Error ''cannot find order by hash when updating order status'')"
    by (simp add: updateOrderStatus_def checkDefined_def)
next
  assume g: "getByHash d h = Some old"
  let ?new = "old ++ statusUpdate old h status txHash settled"
  note u = updated_item[of old h status txHash settled]
  have r: "updateOrderStatus d h status txHash settled =
               Inr (d\<lparr> orders_table := (orders_table d)(Str h \<mapsto> ?new) \<rparr>)"
    using g by (simp add: updateOrderStatus_def checkDefined_def)
  have c: "compositesConsistent old \<longrightarrow> compositesConsistent ?new"
    unfolding compositesConsistent_def by (simp only: u toStr.simps) simp
  show "\<exists>new. updateOrderStatus d h status txHash settled =
               Inr (d\<lparr> orders_table := (orders_table d)(Str h \<mapsto> new) \<rparr>) \<and>
         field new ''orderStatus'' = Str status \<and>
         field new ''offerer'' = field old ''offerer'' \<and>
         field new ''filler'' = field old ''filler'' \<and>
         field new ''chainId'' = field old ''chainId'' \<and>
         new ''offerer_orderStatus'' =
           Some (Str (toStr (field new ''offerer'') @ ''_'' @ toStr (field new ''orderStatus''))) \<and>
         new ''filler_orderStatus'' =
           Some (Str (toStr (field new ''filler'') @ ''_'' @ toStr (field new ''orderStatus''))) \<and>
         new ''chainId_orderStatus'' =
           Some (Str (toStr (field new ''chainId'') @ ''_'' @ toStr (field new ''orderStatus''))) \<and>
         new ''chainId_orderStatus_filler'' =
           Some (Str (toStr (field new ''chainId'') @ ''_'' @ toStr (field new ''orderStatus'')
                      @ ''_'' @ toStr (field new ''filler''))) \<and>
         new ''filler_offerer_orderStatus'' =
           Some (Str (toStr (field new ''filler'') @ ''_'' @ toStr (field new ''offerer'')
                      @ ''_'' @ toStr (field new ''orderStatus''))) \<and>
         new ''filler_offerer'' = old ''filler_offerer'' \<and>
         new ''chainId_filler'' = old ''chainId_filler'' \<and>
         (compositesConsistent old \<longrightarrow> compositesConsistent new)"
    apply (rule exI[of _ ?new])
    apply (intro conjI)
                apply (rule r)
               apply (simp_all only: u toStr.simps c)
    apply (rule c)
    done
qed


theorem composites_consistent_on_writes_witness:
  "compositesConsistent (putItem exampleOrderEntity (Num 1700000000)) \<and>
   (case updateOrderStatus
           (putOrderAndUpdateNonceTransaction (Num 1700000000) emptyDb exampleOrderEntity)
           ''0xc57af022'' ''filled'' (Some ''0xtx'') None of
      Inl e \<Rightarrow> False
    | Inr d \<Rightarrow>
        (case orders_table d (Str ''0xc57af022'') of
           None \<Rightarrow> False
         | Some it \<Rightarrow>
             it ''orderStatus'' = Some (Str ''filled'') \<and>
             it ''offerer_orderStatus'' = Some (Str ''0xofferer_filled'') \<and>
             it ''chainId_orderStatus_filler'' = Some (Str ''1_filled_undefined'') \<and>
             it ''filler_offerer'' = Some (Str ''undefined_0xofferer'') \<and>
             compositesConsistent it))"
proof -
  let ?now = "Num 1700000000"
  let ?d = "putOrderAndUpdateNonceTransaction ?now emptyDb exampleOrderEntity"
  let ?old = "putItem exampleOrderEntity ?now"
  note th = composites_consistent_on_writes[where order = exampleOrderEntity and now = ?now
      and d = ?d and h = "''0xc57af022''" and status = "''filled''" and txHash = "Some ''0xtx''"
      and settled = None and old = ?old]
  from th have c0: "compositesConsistent ?old"
    by (rule conjunct1)
  have g: "getByHash ?d ''0xc57af022'' = Some ?old"
    using composites_consistent_on_writes[where order = exampleOrderEntity and now = ?now
        and d = emptyDb, THEN conjunct2, THEN conjunct2, THEN conjunct1]
    by (simp add: getByHash_def exampleOrderEntity_fields)
  from th[THEN conjunct2, THEN conjunct2, THEN conjunct2, THEN conjunct2, rule_format, OF g]
  obtain new where
    r: "updateOrderStatus ?d ''0xc57af022'' ''filled'' (Some ''0xtx'') None =
          Inr (?d\<lparr> orders_table := (orders_table ?d)(Str ''0xc57af022'' \<mapsto> new) \<rparr>)" and
    f: "field new ''orderStatus'' = Str ''filled''"
       "field new ''offerer'' = field ?old ''offerer''"
       "field new ''filler'' = field ?old ''filler''"
       "field new ''chainId'' = field ?old ''chainId''" and
    n: "new ''offerer_orderStatus'' =
           Some (Str (toStr (field new ''offerer'') @ ''_'' @ toStr (field new ''orderStatus'')))"
       "new ''chainId_orderStatus_filler'' =
           Some (Str (toStr (field new ''chainId'') @ ''_'' @ toStr (field new ''orderStatus'')
                      @ ''_'' @ toStr (field new ''filler'')))"
       "new ''filler_offerer'' = ?old ''filler_offerer''" and
    c: "compositesConsistent ?old \<longrightarrow> compositesConsistent new"
    by (elim exE conjE)
  have o: "field ?old ''offerer'' = Str ''0xofferer''" "field ?old ''filler'' = Undefined"
    "field ?old ''chainId'' = Num 1"
    "?old ''filler_offerer'' = Some (Str ''undefined_0xofferer'')"
    by (simp_all add: putItem_def field_def exampleOrderEntity_def)
  have s: "new ''orderStatus'' = Some (Str ''filled'')"
    using f(1) by (cases "new ''orderStatus''") (simp_all add: field_def)
  from c c0 have "compositesConsistent new"
    by simp
  with r f n o s c0 show ?thesis
    by (simp add: show_simps)
qed


section \<open>What a put stores\<close>

text \<open>
  Claim C10. \<open>putOrderAndUpdateNonceTransaction\<close> stores the order under its hash with
  \<open>createdAt\<close> set to the timestamp of the write, whatever \<open>createdAt\<close> the caller gave;
  every other attribute that is not one of the seven composites is stored as the caller
  gave it (an absent one stays absent). No other order changes, and the nonce record of
  the offerer and chain gets the order's nonce; no other nonce record changes.
\<close>

theorem put_sets_createdAt_keeps_fields:
  "orders_table (putOrderAndUpdateNonceTransaction now d order) (field order ''orderHash'') =
     Some (putItem order now) \<and>
   putItem order now ''createdAt'' = Some now \<and>
   (\<forall>k. k \<notin> set compositeNames \<and> k \<noteq> ''createdAt'' \<longrightarrow> putItem order now k = order k) \<and>
   (\<forall>h. h \<noteq> field order ''orderHash'' \<longrightarrow>
      orders_table (putOrderAndUpdateNonceTransaction now d order) h = orders_table d h) \<and>
   (\<exists>r. nonce_table (putOrderAndUpdateNonceTransaction now d order) (nonceKey order) = Some r \<and>
        r ''nonce'' = Some (field order ''nonce'') \<and>
        r ''offerer'' = Some (Str (nonceKey order))) \<and>
   (\<forall>k. k \<noteq> nonceKey order \<longrightarrow>
      nonce_table (putOrderAndUpdateNonceTransaction now d order) k = nonce_table d k)"
proof (intro conjI allI impI)
  show "orders_table (putOrderAndUpdateNonceTransaction now d order) (field order ''orderHash'') =
     Some (putItem order now)"
    by (simp add: putOrderAndUpdateNonceTransaction_def)
  show "putItem order now ''createdAt'' = Some now"
    by (simp add: putItem_def)
  show "\<exists>r. nonce_table (putOrderAndUpdateNonceTransaction now d order) (nonceKey order) = Some r \<and>
        r ''nonce'' = Some (field order ''nonce'') \<and>
        r ''offerer'' = Some (Str (nonceKey order))"
    by (simp add: putOrderAndUpdateNonceTransaction_def)
next
  fix k :: string
  assume "k \<notin> set compositeNames \<and> k \<noteq> ''createdAt''"
  then show "putItem order now k = order k"
    by (simp add: putItem_def compositeNames_def)
next
  fix h
  assume "h \<noteq> field order ''orderHash''"
  then show "orders_table (putOrderAndUpdateNonceTransaction now d order) h = orders_table d h"
    by (simp add: putOrderAndUpdateNonceTransaction_def)
next
  fix k
  assume "k \<noteq> nonceKey order"
  then show "nonce_table (putOrderAndUpdateNonceTransaction now d order) k = nonce_table d k"
    by (simp add: putOrderAndUpdateNonceTransaction_def)
qed

theorem put_sets_createdAt_keeps_fields_witness:
  "(case orders_table (putOrderAndUpdateNonceTransaction (Num 1700000000) emptyDb exampleOrderEntity)
          (Str ''0xc57af022'') of
      None \<Rightarrow> False
    | Some it \<Rightarrow>
        exampleOrderEntity ''createdAt'' = Some (Num 1) \<and>
        it ''createdAt'' = Some (Num 1700000000) \<and>
        it ''nonce'' = Some (Str ''0xnonce'') \<and>
        it ''deadline'' = Some (Num 3) \<and>
        it ''filler'' = None) \<and>
   orders_table (putOrderAndUpdateNonceTransaction (Num 1700000000) emptyDb exampleOrderEntity)
     (Str ''0xother'') = None"
proof -
  let ?now = "Num 1700000000"
  note th = put_sets_createdAt_keeps_fields[where order = exampleOrderEntity and now = ?now
      and d = emptyDb]
  have a: "orders_table (putOrderAndUpdateNonceTransaction ?now emptyDb exampleOrderEntity)
     (Str ''0xc57af022'') = Some (putItem exampleOrderEntity ?now)"
    using th[THEN conjunct1] by (simp add: exampleOrderEntity_fields)
  have b: "putItem exampleOrderEntity ?now ''createdAt'' = Some ?now"
    using th[THEN conjunct2, THEN conjunct1] .
  note k = th[THEN conjunct2, THEN conjunct2, THEN conjunct1, rule_format]
  have c: "putItem exampleOrderEntity ?now ''nonce'' = Some (Str ''0xnonce'')"
    using k[of "''nonce''"] by (simp add: compositeNames_def exampleOrderEntity_def)
  have d: "putItem exampleOrderEntity ?now ''deadline'' = Some (Num 3)"
    using k[of "''deadline''"] by (simp add: compositeNames_def exampleOrderEntity_def)
  have e: "putItem exampleOrderEntity ?now ''filler'' = None"
    using k[of "''filler''"] by (simp add: compositeNames_def exampleOrderEntity_def)
  have f: "orders_table (putOrderAndUpdateNonceTransaction ?now emptyDb exampleOrderEntity)
     (Str ''0xother'') = None"
    using th[THEN conjunct2, THEN conjunct2, THEN conjunct2, THEN conjunct1, rule_format,
        of "Str ''0xother''"]
    by (simp add: exampleOrderEntity_fields emptyDb_def)
  from a b c d e f show ?thesis
    by (simp add: exampleOrderEntity_def)
qed

end
